theory Spec2Isabelle
  imports Main
begin

section \<open>JavaScript values\<close>

text \<open>
  The server is dynamically typed: request bodies, query strings and database rows are
  JSON-like values. Numbers are modelled as integers plus \<open>NaN\<close>: an integer stands for
  the double nearest to it, fractions are outside the model, and sums are taken exactly
  (as doubles do below two to the 53). Strings are lists of code units below 256.
\<close>

datatype jsnum = Fin int | NaN

datatype jsval =
    JUndefined
  | JNull
  | JBool bool
  | JNum jsnum
  | JStr string
  | JArr "jsval list"
  | JObj "(string \<times> jsval) list"

type_synonym obj = "(string \<times> jsval) list"

text \<open>\<open>if (v)\<close>, \<open>!v\<close>, \<open>a || b\<close>: undefined, null, false, 0, NaN and the empty string are falsy.\<close>

fun truthy :: "jsval \<Rightarrow> bool" where
  "truthy JUndefined = False"
| "truthy JNull = False"
| "truthy (JBool b) = b"
| "truthy (JNum (Fin n)) = (n \<noteq> 0)"
| "truthy (JNum NaN) = False"
| "truthy (JStr s) = (s \<noteq> [])"
| "truthy (JArr xs) = True"
| "truthy (JObj kvs) = True"

definition js_or :: "jsval \<Rightarrow> jsval \<Rightarrow> jsval" where
  "js_or a b = (if truthy a then a else b)"

text \<open>\<open>o.k\<close> on an object: the value stored under the key, \<open>undefined\<close> when the key is missing.\<close>

definition field :: "obj \<Rightarrow> string \<Rightarrow> jsval" where
  "field ob k = (case map_of ob k of None \<Rightarrow> JUndefined | Some v \<Rightarrow> v)"

text \<open>A destructuring default \<open>{ k = d } = o\<close> applies only when the property is \<open>undefined\<close>.\<close>

definition field_default :: "obj \<Rightarrow> string \<Rightarrow> jsval \<Rightarrow> jsval" where
  "field_default ob k d = (if field ob k = JUndefined then d else field ob k)"

text \<open>\<open>new Error(msg)\<close>, \<open>new TypeError(msg)\<close> and the like: an object with a \<open>message\<close>.\<close>

definition Error :: "string \<Rightarrow> jsval" where
  "Error msg = JObj [(''message'', JStr msg)]"

text \<open>\<open>e.message\<close> on a caught or returned error value (never null or undefined where it is read).\<close>

definition message_of :: "jsval \<Rightarrow> jsval" where
  "message_of e = (case e of JObj kvs \<Rightarrow> field kvs ''message'' | _ \<Rightarrow> JUndefined)"

subsection \<open>Strings and numbers\<close>

definition digit_char :: "nat \<Rightarrow> char" where
  "digit_char d = char_of (48 + d)"

fun dec_of_nat :: "nat \<Rightarrow> string" where
  "dec_of_nat n = (if n < 10 then [digit_char n] else dec_of_nat (n div 10) @ [digit_char (n mod 10)])"

declare dec_of_nat.simps [simp del]

text \<open>
  \<open>Number::toString\<close> on an integer. A number of the model stands for the double nearest
  to it (\<open>round_double\<close>, ties to even, overflow to \<open>Infinity\<close>). That double is printed
  with the fewest significant digits \<open>s\<close> (\<open>k\<close> of them) that read back as the same
  double, the closest such \<open>s\<close> when there are several; with \<open>n\<close> the position of the
  decimal point, up to \<open>n = 21\<close> the digits are followed by zeros, beyond that the exponent
  form is used.
\<close>

fun bit_length :: "nat \<Rightarrow> nat" where
  "bit_length n = (if n = 0 then 0 else Suc (bit_length (n div 2)))"

declare bit_length.simps [simp del]

definition round_double :: "nat \<Rightarrow> nat option" where
  "round_double x =
     (let b = bit_length x in
      if b \<le> 53 then Some x
      else let sh = b - 53;
               q = x div 2 ^ sh;
               r = x mod 2 ^ sh;
               half = 2 ^ (sh - 1);
               q' = (if half < r \<or> (r = half \<and> odd q) then q + 1 else q);
               y = q' * 2 ^ sh
           in if 2 ^ 1024 \<le> y then None else Some y)"

definition candidates :: "nat \<Rightarrow> nat \<Rightarrow> (nat \<times> nat) list" where
  "candidates x k =
     concat (map (\<lambda>n. map (\<lambda>s. (s, n))
                         (filter (\<lambda>s. 10 ^ (k - 1) \<le> s \<and> s < 10 ^ k \<and>
                                       round_double (s * 10 ^ (n - k)) = Some x)
                            [x div 10 ^ (n - k), Suc (x div 10 ^ (n - k))]))
               (filter (\<lambda>n. k \<le> n) [length (dec_of_nat x), Suc (length (dec_of_nat x))]))"

definition distance :: "nat \<Rightarrow> nat \<Rightarrow> nat \<times> nat \<Rightarrow> nat" where
  "distance x k c = (let v = fst c * 10 ^ (snd c - k) in if v \<le> x then x - v else v - x)"

fun closest :: "nat \<Rightarrow> nat \<Rightarrow> nat \<times> nat \<Rightarrow> (nat \<times> nat) list \<Rightarrow> nat \<times> nat" where
  "closest x k c [] = c"
| "closest x k c (d # ds) =
     closest x k
       (if distance x k d < distance x k c \<or> (distance x k d = distance x k c \<and> even (fst d))
        then d else c) ds"

definition shortest :: "nat \<Rightarrow> nat \<times> nat" where
  "shortest x =
     (case filter (\<lambda>k. candidates x k \<noteq> []) [1..<18] of
        [] \<Rightarrow> (x, length (dec_of_nat x))
      | k # ks \<Rightarrow> (case candidates x k of c # cs \<Rightarrow> closest x k c cs | [] \<Rightarrow> (x, length (dec_of_nat x))))"

definition nat_to_string :: "nat \<Rightarrow> string" where
  "nat_to_string x0 =
     (case round_double x0 of
        None \<Rightarrow> ''Infinity''
      | Some x \<Rightarrow>
          if x = 0 then ''0''
          else (case shortest x of
                  (sd, n) \<Rightarrow>
                    (let s = dec_of_nat sd; k = length s in
                     if n \<le> 21 then s @ replicate (n - k) (CHR ''0'')
                     else if k = 1 then s @ ''e+'' @ dec_of_nat (n - 1)
                     else take 1 s @ ''.'' @ drop 1 s @ ''e+'' @ dec_of_nat (n - 1))))"

definition Number_toString :: "int \<Rightarrow> string" where
  "Number_toString i =
     (if i < 0 then ''-'' @ nat_to_string (nat (- i)) else nat_to_string (nat i))"

fun join_with :: "string \<Rightarrow> string list \<Rightarrow> string" where
  "join_with sep [] = []"
| "join_with sep [x] = x"
| "join_with sep (x # y # ys) = x @ sep @ join_with sep (y # ys)"

text \<open>A step that may throw, followed by another: the first thrown value wins.\<close>

definition sum_bind :: "jsval + 'a \<Rightarrow> ('a \<Rightarrow> jsval + 'b) \<Rightarrow> jsval + 'b" where
  "sum_bind m f = (case m of Inl e \<Rightarrow> Inl e | Inr x \<Rightarrow> f x)"

text \<open>
  \<open>String(v)\<close>, as applied by template literals, \<open>RegExp.test\<close>, \<open>parseInt\<close> and property
  keys. An object of a JSON body has no callable \<open>toString\<close> of its own: without an own
  \<open>toString\<close> property it prints as \<open>[object Object]\<close>; with one (whose value is never a
  function) the conversion falls through \<open>valueOf\<close>, finds no primitive and throws a
  TypeError. An array joins its elements with commas, null and undefined elements as
  empty strings, and throws where an element throws.
\<close>

fun ToString :: "jsval \<Rightarrow> jsval + string"
  and ToString_elements :: "jsval list \<Rightarrow> jsval + string list" where
  "ToString JUndefined = Inr ''undefined''"
| "ToString JNull = Inr ''null''"
| "ToString (JBool b) = Inr (if b then ''true'' else ''false'')"
| "ToString (JNum (Fin n)) = Inr (Number_toString n)"
| "ToString (JNum NaN) = Inr ''NaN''"
| "ToString (JStr s) = Inr s"
| "ToString (JArr xs) =
     (case ToString_elements xs of Inl e \<Rightarrow> Inl e | Inr ss \<Rightarrow> Inr (join_with '','' ss))"
| "ToString (JObj kvs) =
     (if ''toString'' \<in> set (map fst kvs)
      then Inl (Error ''Cannot convert object to primitive value'')
      else Inr ''[object Object]'')"
| "ToString_elements [] = Inr []"
| "ToString_elements (x # xs) =
     (case (if x = JUndefined \<or> x = JNull then Inr [] else ToString x) of
        Inl e \<Rightarrow> Inl e
      | Inr s \<Rightarrow> (case ToString_elements xs of Inl e \<Rightarrow> Inl e | Inr ss \<Rightarrow> Inr (s # ss)))"

text \<open>\<open>xs.join(sep)\<close> on an array.\<close>

definition array_join :: "string \<Rightarrow> jsval list \<Rightarrow> jsval + string" where
  "array_join sep xs = sum_bind (ToString_elements xs) (\<lambda>ss. Inr (join_with sep ss))"

text \<open>White space and line terminators among the code units below 256 (\<open>\s\<close>, \<open>trim\<close>).\<close>

definition is_ws :: "char \<Rightarrow> bool" where
  "is_ws c = (c \<in> set [CHR 0x09, CHR 0x0A, CHR 0x0B, CHR 0x0C, CHR 0x0D, CHR 0x20, CHR 0xA0])"

definition trim :: "string \<Rightarrow> string" where
  "trim s = rev (dropWhile is_ws (rev (dropWhile is_ws s)))"

definition digit_of :: "char \<Rightarrow> nat option" where
  "digit_of c =
     (let k = (of_char c :: nat) in
      if 48 \<le> k \<and> k \<le> 57 then Some (k - 48)
      else if 97 \<le> k \<and> k \<le> 122 then Some (k - 87)
      else if 65 \<le> k \<and> k \<le> 90 then Some (k - 55)
      else None)"

definition is_digit :: "nat \<Rightarrow> char \<Rightarrow> bool" where
  "is_digit radix c = (case digit_of c of None \<Rightarrow> False | Some d \<Rightarrow> d < radix)"

definition digit_val :: "char \<Rightarrow> nat" where
  "digit_val c = (case digit_of c of None \<Rightarrow> 0 | Some d \<Rightarrow> d)"

definition digits_value :: "nat \<Rightarrow> string \<Rightarrow> nat" where
  "digits_value radix ds = foldl (\<lambda>a c. a * radix + digit_val c) 0 ds"

text \<open>
  \<open>parseInt(v)\<close> with no radix: the argument is converted to a string (which may throw),
  leading white space is skipped, a sign is read, a \<open>0x\<close> prefix selects radix 16, and the
  longest run of digits is read; no digit gives \<open>NaN\<close>.
\<close>

definition parseInt_string :: "string \<Rightarrow> jsnum" where
  "parseInt_string str =
     (let s = dropWhile is_ws str;
          sgn = (if take 1 s = ''-'' then - 1 else (1::int));
          s1 = (if take 1 s = ''-'' \<or> take 1 s = ''+'' then drop 1 s else s);
          radix = (if take 2 s1 = ''0x'' \<or> take 2 s1 = ''0X'' then 16 else (10::nat));
          s2 = (if take 2 s1 = ''0x'' \<or> take 2 s1 = ''0X'' then drop 2 s1 else s1);
          Z = takeWhile (is_digit radix) s2
      in if Z = [] then NaN else Fin (sgn * int (digits_value radix Z)))"

definition parseInt :: "jsval \<Rightarrow> jsval + jsnum" where
  "parseInt v = sum_bind (ToString v) (\<lambda>str. Inr (parseInt_string str))"

fun num_add :: "jsnum \<Rightarrow> jsnum \<Rightarrow> jsnum" where
  "num_add (Fin a) (Fin b) = Fin (a + b)"
| "num_add _ _ = NaN"

fun num_less :: "jsnum \<Rightarrow> jsnum \<Rightarrow> bool" where
  "num_less (Fin a) (Fin b) = (a < b)"
| "num_less _ _ = False"

text \<open>\<open>ToIntegerOrInfinity\<close> on a number of the model: \<open>NaN\<close> becomes 0.\<close>

fun to_integer :: "jsnum \<Rightarrow> int" where
  "to_integer (Fin n) = n"
| "to_integer NaN = 0"

text \<open>
  \<open>Array.prototype.slice(start, end)\<close>: a negative index counts from the end, every index
  is clamped to the array, and an empty range gives the empty array.
\<close>

definition slice :: "'a list \<Rightarrow> jsnum \<Rightarrow> jsnum \<Rightarrow> 'a list" where
  "slice xs start fin =
     (let len = int (length xs);
          rs = to_integer start;
          k = (if rs < 0 then max (len + rs) 0 else min rs len);
          re = to_integer fin;
          final = (if re < 0 then max (len + re) 0 else min re len)
      in take (nat (final - k)) (drop (nat k) xs))"

text \<open>\<open>s.includes(t)\<close>: \<open>t\<close> occurs in \<open>s\<close> as a contiguous substring.\<close>

fun str_includes :: "string \<Rightarrow> string \<Rightarrow> bool" where
  "str_includes [] t = (t = [])"
| "str_includes (c # s) t = (take (length t) (c # s) = t \<or> str_includes s t)"

text \<open>
  \<open>v > 0\<close>. A string operand is read as a numeric literal (\<open>StringToNumber\<close>): white space
  around it is dropped; \<open>0x\<close>, \<open>0o\<close> and \<open>0b\<close> prefix unsigned integers in radix 16, 8
  and 2; otherwise an optional sign is followed by \<open>Infinity\<close> or by decimal digits with
  an optional fraction and an optional exponent. The literal is greater than zero when it
  is well formed, carries no minus sign, and its value does not round to zero (a value of
  at most two to the power of -1075 does). An array or an object is converted to a
  string first.
\<close>

definition all_digits :: "nat \<Rightarrow> string \<Rightarrow> bool" where
  "all_digits radix s = (s \<noteq> [] \<and> list_all (is_digit radix) s)"

definition exponent_of :: "string \<Rightarrow> int option" where
  "exponent_of s =
     (let ds = (if take 1 s = ''+'' \<or> take 1 s = ''-'' then drop 1 s else s)
      in if all_digits 10 ds
         then Some ((if take 1 s = ''-'' then - 1 else 1) * int (digits_value 10 ds))
         else None)"

definition is_exp_char :: "char \<Rightarrow> bool" where
  "is_exp_char c = (c = CHR ''e'' \<or> c = CHR ''E'')"

definition above_underflow :: "nat \<Rightarrow> int \<Rightarrow> bool" where
  "above_underflow m e = (0 < m \<and> (0 \<le> e \<or> 10 ^ nat (- e) < m * 2 ^ 1075))"

definition unsigned_positive :: "string \<Rightarrow> bool" where
  "unsigned_positive s =
     (if s = ''Infinity'' then True
      else let m = takeWhile (\<lambda>c. \<not> is_exp_char c) s;
               rest = dropWhile (\<lambda>c. \<not> is_exp_char c) s;
               ip = takeWhile (\<lambda>c. c \<noteq> CHR ''.'') m;
               fp = drop 1 (dropWhile (\<lambda>c. c \<noteq> CHR ''.'') m)
           in case (if rest = [] then Some 0 else exponent_of (drop 1 rest)) of
                None \<Rightarrow> False
              | Some ex \<Rightarrow>
                  list_all (is_digit 10) ip \<and> list_all (is_digit 10) fp \<and> (ip \<noteq> [] \<or> fp \<noteq> []) \<and>
                  above_underflow (digits_value 10 (ip @ fp)) (ex - int (length fp)))"

definition string_positive :: "string \<Rightarrow> bool" where
  "string_positive s =
     (let t = trim s in
      if take 1 t = ''-'' then False
      else if take 2 t = ''0x'' \<or> take 2 t = ''0X''
      then all_digits 16 (drop 2 t) \<and> 0 < digits_value 16 (drop 2 t)
      else if take 2 t = ''0o'' \<or> take 2 t = ''0O''
      then all_digits 8 (drop 2 t) \<and> 0 < digits_value 8 (drop 2 t)
      else if take 2 t = ''0b'' \<or> take 2 t = ''0B''
      then all_digits 2 (drop 2 t) \<and> 0 < digits_value 2 (drop 2 t)
      else unsigned_positive (if take 1 t = ''+'' then drop 1 t else t))"

definition greater_than_zero :: "jsval \<Rightarrow> jsval + bool" where
  "greater_than_zero v =
     (case v of
        JUndefined \<Rightarrow> Inr False
      | JNull \<Rightarrow> Inr False
      | JBool b \<Rightarrow> Inr b
      | JNum (Fin n) \<Rightarrow> Inr (0 < n)
      | JNum NaN \<Rightarrow> Inr False
      | JStr s \<Rightarrow> Inr (string_positive s)
      | JArr xs \<Rightarrow> sum_bind (ToString (JArr xs)) (\<lambda>s. Inr (string_positive s))
      | JObj kvs \<Rightarrow> sum_bind (ToString (JObj kvs)) (\<lambda>s. Inr (string_positive s)))"

section \<open>Asynchronous code, exceptions and the outside world\<close>

text \<open>
  The hosted database is reached through the query builder of its client library. A built
  query is a value; awaiting it sends it to the service.
\<close>

datatype query =
    QSelect string string "(string \<times> jsval) list"
    \<comment> \<open>\<open>from(t).select(cols)\<close> followed by one \<open>.eq(k, v)\<close> per pair\<close>
  | QInsert string obj
    \<comment> \<open>\<open>from(t).insert(d).select()\<close>\<close>
  | QUpdate string jsval obj
    \<comment> \<open>\<open>from(t).update(d).eq('id', id).select()\<close>\<close>
  | QDelete string jsval
    \<comment> \<open>\<open>from(t).delete().eq('id', id)\<close>\<close>
  | QSelectOr string string string "(string \<times> bool) option"
    \<comment> \<open>\<open>from(t).select(cols).or(expr)\<close>, optionally \<open>.order(col, {ascending})\<close>\<close>
  | QSelectGte string string string string "string \<times> bool"
    \<comment> \<open>\<open>from(t).select(cols).gte(col, v).order(col, {ascending})\<close>\<close>

text \<open>
  An awaited query resolves to \<open>{data, error}\<close>, where \<open>data\<close> is an array of rows or null,
  or the promise rejects with a thrown value.
\<close>

datatype reply = Resolves "obj list option" jsval | Rejects jsval

text \<open>
  The AI gateway object (the singleton built when the module is loaded): the configured
  key, the client built from it (\<open>None\<close> is the source's \<open>null\<close>) and the model handle.
\<close>

record GeminiService =
  apiKey :: jsval
  genAI :: "string option"
  model :: "string option"

text \<open>
  What a request handler can reach: the state of the database service (of any type
  \<open>'s\<close>), the queries sent to it so far, the AI gateway object, the prompts sent to the
  text-generation service so far, and the number of clock readings taken.
\<close>

record 's world =
  store :: 's
  queries :: "query list"
  geminiService :: GeminiService
  prompts :: "string list"
  ticks :: nat

text \<open>
  The collaborators outside the repository: the database client, the generation call of
  the AI client (it throws or returns the text) and the clock behind \<open>new Date()\<close>.
  \<open>iso_time t\<close> is the ISO string of the \<open>t\<close>-th clock reading; \<open>iso_minus_days t d\<close> is
  the ISO string of that reading moved back by \<open>d\<close> days, or \<open>None\<close> when that date is
  out of the range of \<open>Date\<close>. \<open>node_env\<close> is the environment variable naming the
  deployment mode.
\<close>

record 's env =
  client :: "query \<Rightarrow> 's \<Rightarrow> reply \<times> 's"
  generateContent :: "string \<Rightarrow> jsval + string"
  iso_time :: "nat \<Rightarrow> string"
  iso_minus_days :: "nat \<Rightarrow> int \<Rightarrow> string option"
  node_env :: "string option"

text \<open>
  An \<open>async\<close> function body: it reads and changes the world and either throws (\<open>Inl\<close>)
  or returns (\<open>Inr\<close>).
\<close>

type_synonym ('s, 'a) io = "'s world \<Rightarrow> (jsval + 'a) \<times> 's world"

definition io_ret :: "'a \<Rightarrow> ('s, 'a) io" where
  "io_ret x = (\<lambda>w. (Inr x, w))"

definition io_throw :: "jsval \<Rightarrow> ('s, 'a) io" where
  "io_throw e = (\<lambda>w. (Inl e, w))"

text \<open>A step without effect on the world that returns or throws.\<close>

definition io_of :: "jsval + 'a \<Rightarrow> ('s, 'a) io" where
  "io_of r = (\<lambda>w. (r, w))"

definition io_bind :: "('s, 'a) io \<Rightarrow> ('a \<Rightarrow> ('s, 'b) io) \<Rightarrow> ('s, 'b) io" where
  "io_bind m f = (\<lambda>w. case m w of (Inl e, w') \<Rightarrow> (Inl e, w') | (Inr x, w') \<Rightarrow> f x w')"

text \<open>\<open>try { m } catch (e) { h e }\<close>\<close>

definition io_try :: "('s, 'a) io \<Rightarrow> (jsval \<Rightarrow> ('s, 'a) io) \<Rightarrow> ('s, 'a) io" where
  "io_try m h = (\<lambda>w. case m w of (Inl e, w') \<Rightarrow> h e w' | (Inr x, w') \<Rightarrow> (Inr x, w'))"

text \<open>\<open>await query\<close>: the query is sent, the service state moves on, the reply comes back.\<close>

definition await_query :: "'s env \<Rightarrow> query \<Rightarrow> ('s, obj list option \<times> jsval) io" where
  "await_query E q = (\<lambda>w.
     case client E q (store w) of
       (Resolves d err, s') \<Rightarrow> (Inr (d, err), w\<lparr>store := s', queries := queries w @ [q]\<rparr>)
     | (Rejects x, s') \<Rightarrow> (Inl x, w\<lparr>store := s', queries := queries w @ [q]\<rparr>))"

text \<open>\<open>new Date().toISOString()\<close>\<close>

definition now_iso :: "'s env \<Rightarrow> ('s, string) io" where
  "now_iso E = (\<lambda>w. (Inr (iso_time E (ticks w)), w\<lparr>ticks := Suc (ticks w)\<rparr>))"

section \<open>Data access helper (server/config/supabase.js)\<close>

record result =
  data :: "obj list option"
  error :: jsval

record del_result =
  del_error :: jsval

definition dbHelpers_select :: "'s env \<Rightarrow> string \<Rightarrow> string \<Rightarrow> obj \<Rightarrow> ('s, result) io" where
  "dbHelpers_select E table columns filters =
     io_try
       (io_bind (await_query E
                   (QSelect table columns
                      (filter (\<lambda>(k, v). v \<noteq> JUndefined \<and> v \<noteq> JNull) filters)))
          (\<lambda>(d, err). if truthy err then io_throw err
                       else io_ret \<lparr>data = d, error = JNull\<rparr>))
       (\<lambda>err. io_ret \<lparr>data = None, error = err\<rparr>)"

definition dbHelpers_insert :: "'s env \<Rightarrow> string \<Rightarrow> obj \<Rightarrow> ('s, result) io" where
  "dbHelpers_insert E table d =
     io_try
       (io_bind (await_query E (QInsert table d))
          (\<lambda>(res, err). if truthy err then io_throw err
                         else io_ret \<lparr>data = res, error = JNull\<rparr>))
       (\<lambda>err. io_ret \<lparr>data = None, error = err\<rparr>)"

definition dbHelpers_update :: "'s env \<Rightarrow> string \<Rightarrow> jsval \<Rightarrow> obj \<Rightarrow> ('s, result) io" where
  "dbHelpers_update E table ident d =
     io_try
       (io_bind (await_query E (QUpdate table ident d))
          (\<lambda>(res, err). if truthy err then io_throw err
                         else io_ret \<lparr>data = res, error = JNull\<rparr>))
       (\<lambda>err. io_ret \<lparr>data = None, error = err\<rparr>)"

definition dbHelpers_delete :: "'s env \<Rightarrow> string \<Rightarrow> jsval \<Rightarrow> ('s, del_result) io" where
  "dbHelpers_delete E table ident =
     io_try
       (io_bind (await_query E (QDelete table ident))
          (\<lambda>(res, err). if truthy err then io_throw err
                         else io_ret \<lparr>del_error = JNull\<rparr>))
       (\<lambda>err. io_ret \<lparr>del_error = err\<rparr>)"

section \<open>Repositories (server/models/Dish.js, server/models/Contact.js)\<close>

text \<open>The result of \<open>getById\<close>: \<open>data\<close> is one row, \<open>undefined\<close> or \<open>null\<close>.\<close>

record one_result =
  one_data :: jsval
  one_error :: jsval

text \<open>\<open>{...ob, k: v}\<close>: an existing key keeps its place and takes the new value.\<close>

definition obj_put :: "obj \<Rightarrow> string \<Rightarrow> jsval \<Rightarrow> obj" where
  "obj_put ob k v =
     (if k \<in> set (map fst ob) then map (\<lambda>(k', v'). if k' = k then (k', v) else (k', v')) ob
      else ob @ [(k, v)])"

definition first_or_null :: "obj list option \<Rightarrow> jsval" where
  "first_or_null d = (case d of None \<Rightarrow> JNull | Some [] \<Rightarrow> JUndefined | Some (r # rs) \<Rightarrow> JObj r)"

subsection \<open>DishModel\<close>

definition DishModel_tableName :: string where
  "DishModel_tableName = ''dishes''"

definition DishModel_getAll :: "'s env \<Rightarrow> jsval \<Rightarrow> ('s, result) io" where
  "DishModel_getAll E category0 =
     (let category = (if category0 = JUndefined then JNull else category0);
          filters = (if truthy category then [(''category'', category)] else [])
      in dbHelpers_select E DishModel_tableName ''*'' filters)"

definition DishModel_getById :: "'s env \<Rightarrow> jsval \<Rightarrow> ('s, one_result) io" where
  "DishModel_getById E ident =
     io_bind (dbHelpers_select E DishModel_tableName ''*'' [(''id'', ident)])
       (\<lambda>r. io_ret \<lparr>one_data = first_or_null (data r), one_error = error r\<rparr>)"

definition DishModel_create :: "'s env \<Rightarrow> obj \<Rightarrow> ('s, result) io" where
  "DishModel_create E dishData =
     io_bind (now_iso E) (\<lambda>created.
     io_bind (now_iso E) (\<lambda>updated.
       dbHelpers_insert E DishModel_tableName
         [(''title'', field dishData ''title''),
          (''description'', field dishData ''description''),
          (''category'', field dishData ''category''),
          (''image_url'', js_or (field dishData ''image_url'') JNull),
          (''price'', js_or (field dishData ''price'') JNull),
          (''ingredients'', js_or (field dishData ''ingredients'') (JArr [])),
          (''is_featured'', js_or (field dishData ''is_featured'') (JBool False)),
          (''is_available'', JBool (field dishData ''is_available'' \<noteq> JBool False)),
          (''created_at'', JStr created),
          (''updated_at'', JStr updated)]))"

definition DishModel_update :: "'s env \<Rightarrow> jsval \<Rightarrow> obj \<Rightarrow> ('s, result) io" where
  "DishModel_update E ident dishData =
     io_bind (now_iso E) (\<lambda>t.
       dbHelpers_update E DishModel_tableName ident (obj_put dishData ''updated_at'' (JStr t)))"

definition DishModel_delete :: "'s env \<Rightarrow> jsval \<Rightarrow> ('s, del_result) io" where
  "DishModel_delete E ident = dbHelpers_delete E DishModel_tableName ident"

definition DishModel_getByCategory :: "'s env \<Rightarrow> jsval \<Rightarrow> ('s, result) io" where
  "DishModel_getByCategory E category =
     dbHelpers_select E DishModel_tableName ''*'' [(''category'', category)]"

definition DishModel_getFeatured :: "'s env \<Rightarrow> ('s, result) io" where
  "DishModel_getFeatured E =
     dbHelpers_select E DishModel_tableName ''*'' [(''is_featured'', JBool True)]"

definition DishModel_getAvailable :: "'s env \<Rightarrow> ('s, result) io" where
  "DishModel_getAvailable E =
     dbHelpers_select E DishModel_tableName ''*'' [(''is_available'', JBool True)]"

definition DishModel_search :: "'s env \<Rightarrow> jsval \<Rightarrow> ('s, result) io" where
  "DishModel_search E searchTerm =
     io_try
       (io_bind (io_of (ToString searchTerm)) (\<lambda>term.
        io_bind (await_query E
                   (QSelectOr DishModel_tableName ''*''
                      (''title.ilike.%'' @ term @ ''%,description.ilike.%'' @ term @ ''%'')
                      None))
          (\<lambda>(d, err). if truthy err then io_throw err
                       else io_ret \<lparr>data = d, error = JNull\<rparr>)))
       (\<lambda>err. io_ret \<lparr>data = None, error = err\<rparr>)"

subsection \<open>ContactModel\<close>

definition ContactModel_tableName :: string where
  "ContactModel_tableName = ''contact_messages''"

definition ContactModel_create :: "'s env \<Rightarrow> obj \<Rightarrow> ('s, result) io" where
  "ContactModel_create E contactData =
     io_bind (now_iso E) (\<lambda>created.
     io_bind (now_iso E) (\<lambda>updated.
       dbHelpers_insert E ContactModel_tableName
         [(''name'', field contactData ''name''),
          (''email'', field contactData ''email''),
          (''phone'', js_or (field contactData ''phone'') JNull),
          (''event_type'', js_or (field contactData ''eventType'') JNull),
          (''guests'', js_or (field contactData ''guests'') JNull),
          (''preferred_date'', js_or (field contactData ''date'') JNull),
          (''message'', field contactData ''message''),
          (''status'', JStr ''new''),
          (''created_at'', JStr created),
          (''updated_at'', JStr updated)]))"

definition ContactModel_getAll :: "'s env \<Rightarrow> jsval \<Rightarrow> ('s, result) io" where
  "ContactModel_getAll E status0 =
     (let status = (if status0 = JUndefined then JNull else status0);
          filters = (if truthy status then [(''status'', status)] else [])
      in dbHelpers_select E ContactModel_tableName ''*'' filters)"

definition ContactModel_getById :: "'s env \<Rightarrow> jsval \<Rightarrow> ('s, one_result) io" where
  "ContactModel_getById E ident =
     io_bind (dbHelpers_select E ContactModel_tableName ''*'' [(''id'', ident)])
       (\<lambda>r. io_ret \<lparr>one_data = first_or_null (data r), one_error = error r\<rparr>)"

definition ContactModel_updateStatus :: "'s env \<Rightarrow> jsval \<Rightarrow> jsval \<Rightarrow> ('s, result) io" where
  "ContactModel_updateStatus E ident status =
     io_bind (now_iso E) (\<lambda>t.
       dbHelpers_update E ContactModel_tableName ident
         [(''status'', status), (''updated_at'', JStr t)])"

definition ContactModel_delete :: "'s env \<Rightarrow> jsval \<Rightarrow> ('s, del_result) io" where
  "ContactModel_delete E ident = dbHelpers_delete E ContactModel_tableName ident"

definition ContactModel_getByStatus :: "'s env \<Rightarrow> jsval \<Rightarrow> ('s, result) io" where
  "ContactModel_getByStatus E status =
     dbHelpers_select E ContactModel_tableName ''*'' [(''status'', status)]"

text \<open>
  \<open>getRecent(days)\<close>: the threshold date is the current one moved back by \<open>days\<close>;
  \<open>toISOString\<close> throws a RangeError inside the \<open>try\<close> when that date is invalid
  (\<open>days\<close> is \<open>NaN\<close> or too large). Both callers pass a number, so the default of 30
  never applies.
\<close>

definition threshold_iso :: "'s env \<Rightarrow> jsnum \<Rightarrow> ('s, string) io" where
  "threshold_iso E days = (\<lambda>w.
     (case days of
        NaN \<Rightarrow> Inl (Error ''Invalid time value'')
      | Fin d \<Rightarrow> (case iso_minus_days E (ticks w) d of
                    None \<Rightarrow> Inl (Error ''Invalid time value'')
                  | Some t \<Rightarrow> Inr t),
      w\<lparr>ticks := Suc (ticks w)\<rparr>))"

definition ContactModel_getRecent :: "'s env \<Rightarrow> jsnum \<Rightarrow> ('s, result) io" where
  "ContactModel_getRecent E days =
     io_try
       (io_bind (threshold_iso E days) (\<lambda>t.
        io_bind (await_query E
                   (QSelectGte ContactModel_tableName ''*'' ''created_at'' t (''created_at'', False)))
          (\<lambda>(d, err). if truthy err then io_throw err
                       else io_ret \<lparr>data = d, error = JNull\<rparr>)))
       (\<lambda>err. io_ret \<lparr>data = None, error = err\<rparr>)"

definition ContactModel_search :: "'s env \<Rightarrow> jsval \<Rightarrow> ('s, result) io" where
  "ContactModel_search E searchTerm =
     io_try
       (io_bind (io_of (ToString searchTerm)) (\<lambda>term.
        io_bind (await_query E
                   (QSelectOr ContactModel_tableName ''*''
                      (''name.ilike.%'' @ term @ ''%,email.ilike.%'' @ term @ ''%'')
                      (Some (''created_at'', False))))
          (\<lambda>(d, err). if truthy err then io_throw err
                       else io_ret \<lparr>data = d, error = JNull\<rparr>)))
       (\<lambda>err. io_ret \<lparr>data = None, error = err\<rparr>)"

section \<open>Request handlers\<close>

text \<open>
  A handler reads \<open>req.query\<close>, \<open>req.params\<close> and \<open>req.body\<close>, which the router and the
  JSON body parser provide as objects, and answers with \<open>res.status(code).json(body)\<close>.
  A handler that throws past its own \<open>catch\<close> gives \<open>Inl\<close>. A field of the body whose
  value is \<open>undefined\<close> is kept here; serialisation drops it.
\<close>

record response =
  res_status :: nat
  res_json :: obj

definition rows_json :: "obj list \<Rightarrow> jsval" where
  "rows_json rows = JArr (map JObj rows)"

text \<open>\<open>e.message\<close>: reading a property of \<open>null\<close> or \<open>undefined\<close> throws a TypeError.\<close>

definition error_message :: "jsval \<Rightarrow> ('s, jsval) io" where
  \<open>error_message e =
     (case e of
        JUndefined \<Rightarrow> io_throw (Error ''Cannot read properties of undefined (reading 'message')'')
      | JNull \<Rightarrow> io_throw (Error ''Cannot read properties of null (reading 'message')'')
      | JObj kvs \<Rightarrow> io_ret (field kvs ''message'')
      | _ \<Rightarrow> io_ret JUndefined)\<close>

text \<open>\<open>result.data[0]\<close>: indexing \<open>null\<close> throws, indexing an empty array gives \<open>undefined\<close>.\<close>

definition index0 :: "obj list option \<Rightarrow> ('s, jsval) io" where
  \<open>index0 d =
     (case d of
        None \<Rightarrow> io_throw (Error ''Cannot read properties of null (reading '0')'')
      | Some [] \<Rightarrow> io_ret JUndefined
      | Some (r # rs) \<Rightarrow> io_ret (JObj r))\<close>

text \<open>\<open>result.data[0].k\<close>: the first row must exist for its property to be read.\<close>

definition first_row :: "obj list option \<Rightarrow> ('s, obj) io" where
  \<open>first_row d =
     (case d of
        None \<Rightarrow> io_throw (Error ''Cannot read properties of null (reading '0')'')
      | Some [] \<Rightarrow> io_throw (Error ''Cannot read properties of undefined (reading 'id')'')
      | Some (r # rs) \<Rightarrow> io_ret r)\<close>

text \<open>The outer \<open>catch\<close> of the portfolio and contact handlers.\<close>

definition internal_error :: "jsval \<Rightarrow> ('s, response) io" where
  "internal_error e =
     io_bind (error_message e) (\<lambda>m.
       io_ret \<lparr>res_status = 500,
               res_json = [(''success'', JBool False),
                           (''message'', JStr ''Internal server error''),
                           (''error'', m)]\<rparr>)"

definition store_error :: "string \<Rightarrow> jsval \<Rightarrow> ('s, response) io" where
  "store_error msg e =
     io_bind (error_message e) (\<lambda>m.
       io_ret \<lparr>res_status = 500,
               res_json = [(''success'', JBool False), (''message'', JStr msg), (''error'', m)]\<rparr>)"

subsection \<open>PortfolioController (server/controllers/portfolioController.js)\<close>

definition getAllDishes :: "'s env \<Rightarrow> obj \<Rightarrow> ('s, response) io" where
  "getAllDishes E query =
     io_try
       (let category = field query ''category'';
            featured = field query ''featured'';
            available = field query ''available'';
            search = field query ''search''
        in io_bind
             (if truthy search then DishModel_search E search
              else if featured = JStr ''true'' then DishModel_getFeatured E
              else if available = JStr ''true'' then DishModel_getAvailable E
              else if truthy category then DishModel_getByCategory E category
              else DishModel_getAll E JUndefined)
             (\<lambda>r. if truthy (error r) then store_error ''Error fetching dishes'' (error r)
                  else io_ret \<lparr>res_status = 200,
                               res_json =
                                 [(''success'', JBool True),
                                  (''data'', (case data r of Some rows \<Rightarrow> rows_json rows
                                              | None \<Rightarrow> JArr [])),
                                  (''count'', (case data r of
                                                 Some rows \<Rightarrow> JNum (Fin (int (length rows)))
                                               | None \<Rightarrow> JNum (Fin 0)))]\<rparr>))
       internal_error"

definition createDish :: "'s env \<Rightarrow> obj \<Rightarrow> ('s, response) io" where
  "createDish E dishData =
     io_try
       (if \<not> truthy (field dishData ''title'') \<or> \<not> truthy (field dishData ''description'')
           \<or> \<not> truthy (field dishData ''category'')
        then io_ret \<lparr>res_status = 400,
                     res_json = [(''success'', JBool False),
                                 (''message'', JStr ''Title, description, and category are required'')]\<rparr>
        else io_bind (DishModel_create E dishData)
               (\<lambda>r. if truthy (error r) then store_error ''Error creating dish'' (error r)
                    else io_bind (index0 (data r)) (\<lambda>row.
                           io_ret \<lparr>res_status = 201,
                                   res_json = [(''success'', JBool True),
                                               (''message'', JStr ''Dish created successfully''),
                                               (''data'', row)]\<rparr>)))
       internal_error"

definition updateDish :: "'s env \<Rightarrow> obj \<Rightarrow> obj \<Rightarrow> ('s, response) io" where
  "updateDish E params dishData =
     io_try
       (io_bind (DishModel_update E (field params ''id'') dishData)
          (\<lambda>r. if truthy (error r) then store_error ''Error updating dish'' (error r)
               else if data r = None \<or> data r = Some []
               then io_ret \<lparr>res_status = 404,
                            res_json = [(''success'', JBool False),
                                        (''message'', JStr ''Dish not found'')]\<rparr>
               else io_bind (index0 (data r)) (\<lambda>row.
                      io_ret \<lparr>res_status = 200,
                              res_json = [(''success'', JBool True),
                                          (''message'', JStr ''Dish updated successfully''),
                                          (''data'', row)]\<rparr>)))
       internal_error"

definition deleteDish :: "'s env \<Rightarrow> obj \<Rightarrow> ('s, response) io" where
  "deleteDish E params =
     io_try
       (io_bind (DishModel_delete E (field params ''id''))
          (\<lambda>r. if truthy (del_error r) then store_error ''Error deleting dish'' (del_error r)
               else io_ret \<lparr>res_status = 200,
                            res_json = [(''success'', JBool True),
                                        (''message'', JStr ''Dish deleted successfully'')]\<rparr>))
       internal_error"

definition getDishById :: "'s env \<Rightarrow> obj \<Rightarrow> ('s, response) io" where
  "getDishById E params =
     io_try
       (io_bind (DishModel_getById E (field params ''id''))
          (\<lambda>r. if truthy (one_error r) then store_error ''Error fetching dish'' (one_error r)
               else if \<not> truthy (one_data r)
               then io_ret \<lparr>res_status = 404,
                            res_json = [(''success'', JBool False),
                                        (''message'', JStr ''Dish not found'')]\<rparr>
               else io_ret \<lparr>res_status = 200,
                            res_json = [(''success'', JBool True), (''data'', one_data r)]\<rparr>))
       internal_error"

definition category_descriptor :: "string \<Rightarrow> string \<Rightarrow> string \<Rightarrow> jsval" where
  "category_descriptor i n d = JObj [(''id'', JStr i), (''name'', JStr n), (''description'', JStr d)]"

definition getCategories :: "('s, response) io" where
  "getCategories =
     io_try
       (io_ret \<lparr>res_status = 200,
                res_json =
                  [(''success'', JBool True),
                   (''data'',
                    JArr [category_descriptor ''appetizers'' ''Appetizers''
                            ''Start your meal with these delicious options'',
                          category_descriptor ''mains'' ''Main Courses''
                            ''Our signature main dishes'',
                          category_descriptor ''desserts'' ''Desserts''
                            ''Sweet endings to your perfect meal'',
                          category_descriptor ''drinks'' ''Beverages''
                            ''Refreshing drinks and specialty cocktails'',
                          category_descriptor ''specials'' ''Chef Specials''
                            ''Limited time seasonal offerings''])]\<rparr>)
       internal_error"

text \<open>
  Counting by key, \<open>if (counts[k] !== undefined) counts[k]++\<close>, on an object literal of
  counters. The key is converted to a string (which may throw). An own counter is
  incremented. A key that names a property inherited from \<open>Object.prototype\<close> is not
  \<open>undefined\<close> either: incrementing that function gives \<open>NaN\<close>, stored as a new own
  property; only \<open>__proto__\<close> swallows the assignment.
\<close>

definition object_prototype_keys :: "string list" where
  "object_prototype_keys =
     [''constructor'', ''__defineGetter__'', ''__defineSetter__'', ''hasOwnProperty'',
      ''__lookupGetter__'', ''__lookupSetter__'', ''isPrototypeOf'', ''propertyIsEnumerable'',
      ''toString'', ''valueOf'', ''__proto__'', ''toLocaleString'']"

definition increment :: "jsval \<Rightarrow> jsval" where
  "increment v = (case v of JNum (Fin n) \<Rightarrow> JNum (Fin (n + 1)) | _ \<Rightarrow> JNum NaN)"

definition count_key :: "obj \<Rightarrow> jsval \<Rightarrow> jsval + obj" where
  "count_key counts key =
     sum_bind (ToString key) (\<lambda>k.
       if k \<in> set (map fst counts) then Inr (obj_put counts k (increment (field counts k)))
       else if k \<in> set object_prototype_keys \<and> k \<noteq> ''__proto__''
       then Inr (counts @ [(k, JNum NaN)])
       else Inr counts)"

fun count_rows :: "string \<Rightarrow> obj \<Rightarrow> obj list \<Rightarrow> jsval + obj" where
  "count_rows column counts [] = Inr counts"
| "count_rows column counts (r # rs) =
     sum_bind (count_key counts (field r column)) (\<lambda>counts'. count_rows column counts' rs)"

definition data_length :: "obj list option \<Rightarrow> jsval" where
  "data_length d = (case d of Some rows \<Rightarrow> JNum (Fin (int (length rows))) | None \<Rightarrow> JNum (Fin 0))"

text \<open>
  The three reads of a statistics handler are started together (\<open>Promise.all\<close>) in the
  order written; the model runs them in that order. No repository call rejects.
\<close>

definition getStats :: "'s env \<Rightarrow> ('s, response) io" where
  "getStats E =
     io_try
       (io_bind (DishModel_getAll E JUndefined) (\<lambda>allDishes.
        io_bind (DishModel_getFeatured E) (\<lambda>featuredDishes.
        io_bind (DishModel_getAvailable E) (\<lambda>availableDishes.
        io_bind (io_of (case data allDishes of
                          Some rows \<Rightarrow>
                            count_rows ''category''
                              [(''appetizers'', JNum (Fin 0)), (''mains'', JNum (Fin 0)),
                               (''desserts'', JNum (Fin 0)), (''drinks'', JNum (Fin 0)),
                               (''specials'', JNum (Fin 0))] rows
                        | None \<Rightarrow>
                            Inr [(''appetizers'', JNum (Fin 0)), (''mains'', JNum (Fin 0)),
                                 (''desserts'', JNum (Fin 0)), (''drinks'', JNum (Fin 0)),
                                 (''specials'', JNum (Fin 0))]))
          (\<lambda>categories.
             io_ret \<lparr>res_status = 200,
                     res_json =
                       [(''success'', JBool True),
                        (''data'',
                         JObj [(''total_dishes'', data_length (data allDishes)),
                               (''featured_dishes'', data_length (data featuredDishes)),
                               (''available_dishes'', data_length (data availableDishes)),
                               (''categories'', JObj categories)])]\<rparr>)))))
       internal_error"

subsection \<open>Regular expressions\<close>

text \<open>
  The fragment of regular expressions the source uses: character classes, sequence and
  \<open>+\<close>. A pattern anchored with \<open>^\<close> and \<open>$\<close> (no flags) must match the whole string.
  Matching is by derivatives.
\<close>

datatype rexp =
    Zero
  | One
  | Atom "char \<Rightarrow> bool"
  | Alt rexp rexp
  | Seq rexp rexp
  | Star rexp

definition Plus_rexp :: "rexp \<Rightarrow> rexp" where
  "Plus_rexp r = Seq r (Star r)"

fun nullable :: "rexp \<Rightarrow> bool" where
  "nullable Zero = False"
| "nullable One = True"
| "nullable (Atom p) = False"
| "nullable (Alt r s) = (nullable r \<or> nullable s)"
| "nullable (Seq r s) = (nullable r \<and> nullable s)"
| "nullable (Star r) = True"

fun deriv :: "char \<Rightarrow> rexp \<Rightarrow> rexp" where
  "deriv c Zero = Zero"
| "deriv c One = Zero"
| "deriv c (Atom p) = (if p c then One else Zero)"
| "deriv c (Alt r s) = Alt (deriv c r) (deriv c s)"
| "deriv c (Seq r s) =
     (if nullable r then Alt (Seq (deriv c r) s) (deriv c s) else Seq (deriv c r) s)"
| "deriv c (Star r) = Seq (deriv c r) (Star r)"

fun derivs :: "string \<Rightarrow> rexp \<Rightarrow> rexp" where
  "derivs [] r = r"
| "derivs (c # cs) r = derivs cs (deriv c r)"

text \<open>\<open>r.test(v)\<close>: the argument is converted to a string first, which may throw.\<close>

definition regex_test :: "rexp \<Rightarrow> jsval \<Rightarrow> jsval + bool" where
  "regex_test r v = sum_bind (ToString v) (\<lambda>str. Inr (nullable (derivs str r)))"

text \<open>
  The strings a regular expression denotes; the matcher is checked against it below.
\<close>

inductive_set star :: "string set \<Rightarrow> string set" for L :: "string set" where
  star_nil: "[] \<in> star L"
| star_step: "u \<in> L \<Longrightarrow> v \<in> star L \<Longrightarrow> u @ v \<in> star L"

fun lang :: "rexp \<Rightarrow> string set" where
  "lang Zero = {}"
| "lang One = {[]}"
| "lang (Atom p) = {[c] | c. p c}"
| "lang (Alt r s) = lang r \<union> lang s"
| "lang (Seq r s) = {u @ v | u v. u \<in> lang r \<and> v \<in> lang s}"
| "lang (Star r) = star (lang r)"

text \<open>\<open>[^\s@]\<close>\<close>

definition not_space_at :: "char \<Rightarrow> bool" where
  "not_space_at c = (\<not> is_ws c \<and> c \<noteq> CHR ''@'')"

text \<open>\<open>/^[^\s@]+@[^\s@]+\.[^\s@]+$/\<close>\<close>

definition emailRegex :: rexp where
  "emailRegex =
     Seq (Plus_rexp (Atom not_space_at))
       (Seq (Atom (\<lambda>c. c = CHR ''@''))
          (Seq (Plus_rexp (Atom not_space_at))
             (Seq (Atom (\<lambda>c. c = CHR ''.'')) (Plus_rexp (Atom not_space_at)))))"

subsection \<open>ContactController (server/controllers/contactController.js)\<close>

definition submitContact :: "'s env \<Rightarrow> obj \<Rightarrow> ('s, response) io" where
  "submitContact E contactData =
     io_try
       (if \<not> truthy (field contactData ''name'') \<or> \<not> truthy (field contactData ''email'')
           \<or> \<not> truthy (field contactData ''message'')
        then io_ret \<lparr>res_status = 400,
                     res_json = [(''success'', JBool False),
                                 (''message'', JStr ''Name, email, and message are required'')]\<rparr>
        else io_bind (io_of (regex_test emailRegex (field contactData ''email''))) (\<lambda>matches.
          if \<not> matches
          then io_ret \<lparr>res_status = 400,
                       res_json = [(''success'', JBool False),
                                   (''message'', JStr ''Please provide a valid email address'')]\<rparr>
          else io_bind (ContactModel_create E contactData)
                 (\<lambda>r. if truthy (error r)
                      then store_error ''Error submitting contact form'' (error r)
                      else io_bind (first_row (data r)) (\<lambda>row.
                             io_ret \<lparr>res_status = 201,
                                     res_json =
                                       [(''success'', JBool True),
                                        (''message'',
                                         JStr ''Thank you for your message! We will get back to you soon.''),
                                        (''data'',
                                         JObj [(''id'', field row ''id''),
                                               (''name'', field row ''name''),
                                               (''email'', field row ''email''),
                                               (''created_at'', field row ''created_at'')])]\<rparr>))))
       internal_error"

definition getAllMessages :: "'s env \<Rightarrow> obj \<Rightarrow> ('s, response) io" where
  "getAllMessages E query =
     io_try
       (let status = field query ''status'';
            limit = field_default query ''limit'' (JNum (Fin 50));
            offset = field_default query ''offset'' (JNum (Fin 0))
        in io_bind
             (if truthy status then ContactModel_getByStatus E status
              else ContactModel_getAll E JUndefined)
             (\<lambda>r. if truthy (error r)
                  then store_error ''Error fetching contact messages'' (error r)
                  else
                    io_bind (io_of (parseInt offset)) (\<lambda>startIndex.
                    io_bind (io_of (parseInt limit)) (\<lambda>parsedLimit.
                      (let endIndex = num_add startIndex parsedLimit;
                           paginatedData = (case data r of
                                              Some rows \<Rightarrow> slice rows startIndex endIndex
                                            | None \<Rightarrow> [])
                       in io_ret
                            \<lparr>res_status = 200,
                             res_json =
                               [(''success'', JBool True),
                                (''data'', rows_json paginatedData),
                                (''pagination'',
                                 JObj [(''total'', (case data r of
                                                     Some rows \<Rightarrow> JNum (Fin (int (length rows)))
                                                   | None \<Rightarrow> JNum (Fin 0))),
                                       (''limit'', JNum parsedLimit),
                                       (''offset'', JNum startIndex),
                                       (''has_more'', (case data r of
                                                        Some rows \<Rightarrow>
                                                          JBool (num_less endIndex
                                                                   (Fin (int (length rows))))
                                                      | None \<Rightarrow> JBool False))])]\<rparr>)))))
       internal_error"

definition getMessageById :: "'s env \<Rightarrow> obj \<Rightarrow> ('s, response) io" where
  "getMessageById E params =
     io_try
       (io_bind (ContactModel_getById E (field params ''id''))
          (\<lambda>r. if truthy (one_error r)
               then store_error ''Error fetching contact message'' (one_error r)
               else if \<not> truthy (one_data r)
               then io_ret \<lparr>res_status = 404,
                            res_json = [(''success'', JBool False),
                                        (''message'', JStr ''Contact message not found'')]\<rparr>
               else io_ret \<lparr>res_status = 200,
                            res_json = [(''success'', JBool True), (''data'', one_data r)]\<rparr>))
       internal_error"

definition validStatuses :: "string list" where
  "validStatuses = [''new'', ''in_progress'', ''completed'', ''archived'']"

definition updateMessageStatus :: "'s env \<Rightarrow> obj \<Rightarrow> obj \<Rightarrow> ('s, response) io" where
  "updateMessageStatus E params body =
     io_try
       (let status = field body ''status''
        in if status \<notin> set (map JStr validStatuses)
           then io_ret \<lparr>res_status = 400,
                        res_json =
                          [(''success'', JBool False),
                           (''message'',
                            JStr (''Invalid status. Must be one of: ''
                                  @ join_with '', '' validStatuses))]\<rparr>
           else io_bind (ContactModel_updateStatus E (field params ''id'') status)
                  (\<lambda>r. if truthy (error r)
                       then store_error ''Error updating message status'' (error r)
                       else if data r = None \<or> data r = Some []
                       then io_ret \<lparr>res_status = 404,
                                    res_json = [(''success'', JBool False),
                                                (''message'', JStr ''Contact message not found'')]\<rparr>
                       else io_bind (index0 (data r)) (\<lambda>row.
                              io_ret \<lparr>res_status = 200,
                                      res_json =
                                        [(''success'', JBool True),
                                         (''message'', JStr ''Message status updated successfully''),
                                         (''data'', row)]\<rparr>)))
       internal_error"

definition deleteMessage :: "'s env \<Rightarrow> obj \<Rightarrow> ('s, response) io" where
  "deleteMessage E params =
     io_try
       (io_bind (ContactModel_delete E (field params ''id''))
          (\<lambda>r. if truthy (del_error r) then store_error ''Error deleting message'' (del_error r)
               else io_ret \<lparr>res_status = 200,
                            res_json = [(''success'', JBool True),
                                        (''message'', JStr ''Message deleted successfully'')]\<rparr>))
       internal_error"

definition getRecentMessages :: "'s env \<Rightarrow> obj \<Rightarrow> ('s, response) io" where
  "getRecentMessages E query =
     io_try
       (let days = field_default query ''days'' (JNum (Fin 30))
        in io_bind (io_of (parseInt days)) (\<lambda>parsedDays.
           io_bind (ContactModel_getRecent E parsedDays)
             (\<lambda>r. if truthy (error r)
                  then store_error ''Error fetching recent messages'' (error r)
                  else io_ret \<lparr>res_status = 200,
                               res_json =
                                 [(''success'', JBool True),
                                  (''data'', (case data r of Some rows \<Rightarrow> rows_json rows
                                              | None \<Rightarrow> JArr [])),
                                  (''count'', data_length (data r)),
                                  (''days'', JNum parsedDays)]\<rparr>)))
       internal_error"

definition searchMessages :: "'s env \<Rightarrow> obj \<Rightarrow> ('s, response) io" where
  "searchMessages E query =
     io_try
       (let searchTerm = field query ''q''
        in if \<not> truthy searchTerm
           then io_ret \<lparr>res_status = 400,
                        res_json = [(''success'', JBool False),
                                    (''message'', JStr ''Search term is required'')]\<rparr>
           else io_bind (ContactModel_search E searchTerm)
                  (\<lambda>r. if truthy (error r)
                       then store_error ''Error searching messages'' (error r)
                       else io_ret \<lparr>res_status = 200,
                                    res_json =
                                      [(''success'', JBool True),
                                       (''data'', (case data r of Some rows \<Rightarrow> rows_json rows
                                                   | None \<Rightarrow> JArr [])),
                                       (''count'', data_length (data r)),
                                       (''search_term'', searchTerm)]\<rparr>))
       internal_error"

definition getContactStats :: "'s env \<Rightarrow> ('s, response) io" where
  "getContactStats E =
     io_try
       (io_bind (ContactModel_getAll E JUndefined) (\<lambda>allMessages.
        io_bind (ContactModel_getByStatus E (JStr ''new'')) (\<lambda>newMessages.
        io_bind (ContactModel_getRecent E (Fin 30)) (\<lambda>recentMessages.
        io_bind (io_of (case data allMessages of
                          Some rows \<Rightarrow>
                            count_rows ''status''
                              [(''new'', JNum (Fin 0)), (''in_progress'', JNum (Fin 0)),
                               (''completed'', JNum (Fin 0)), (''archived'', JNum (Fin 0))] rows
                        | None \<Rightarrow>
                            Inr [(''new'', JNum (Fin 0)), (''in_progress'', JNum (Fin 0)),
                                 (''completed'', JNum (Fin 0)), (''archived'', JNum (Fin 0))]))
          (\<lambda>status_breakdown.
             io_ret \<lparr>res_status = 200,
                     res_json =
                       [(''success'', JBool True),
                        (''data'',
                         JObj [(''total_messages'', data_length (data allMessages)),
                               (''new_messages'', data_length (data newMessages)),
                               (''recent_messages'', data_length (data recentMessages)),
                               (''status_breakdown'', JObj status_breakdown)])]\<rparr>)))))
       internal_error"

section \<open>AI gateway (server/config/gemini.js)\<close>

text \<open>The constructor; its argument is the value of the environment variable holding the key.\<close>

definition GeminiService_new :: "string option \<Rightarrow> GeminiService" where
  "GeminiService_new key =
     (let k = (case key of None \<Rightarrow> JUndefined | Some x \<Rightarrow> JStr x)
      in if \<not> truthy k then \<lparr>apiKey = k, genAI = None, model = None\<rparr>
         else \<lparr>apiKey = k, genAI = key, model = Some ''gemini-1.5-flash''\<rparr>)"

definition isAvailable :: "GeminiService \<Rightarrow> bool" where
  "isAvailable g = (genAI g \<noteq> None)"

definition get_service :: "('s, GeminiService) io" where
  "get_service = (\<lambda>w. (Inr (geminiService w), w))"

text \<open>
  \<open>this.model.generateContent(prompt)\<close> with the reading of the response text: the one
  network call to the generation service. The prompt is recorded as sent.
\<close>

definition model_generateContent :: "'s env \<Rightarrow> string \<Rightarrow> ('s, string) io" where
  \<open>model_generateContent E prompt = (\<lambda>w.
     case model (geminiService w) of
       None \<Rightarrow> (Inl (Error ''Cannot read properties of undefined (reading 'generateContent')''), w)
     | Some m \<Rightarrow> (generateContent E prompt, w\<lparr>prompts := prompts w @ [prompt]\<rparr>))\<close>

text \<open>\<open>error.message?.includes(t)\<close>\<close>

definition message_includes :: "jsval \<Rightarrow> string \<Rightarrow> ('s, bool) io" where
  "message_includes e t =
     io_bind (error_message e) (\<lambda>m.
       case m of
         JUndefined \<Rightarrow> io_ret False
       | JNull \<Rightarrow> io_ret False
       | JStr x \<Rightarrow> io_ret (str_includes x t)
       | JArr xs \<Rightarrow> io_ret (JStr t \<in> set xs)
       | _ \<Rightarrow> io_throw (Error ''error.message?.includes is not a function''))"

definition nl :: string where
  "nl = [CHR 0x0A]"

definition systemContext :: string where
  \<open>systemContext =
     nl @ ''You are a helpful AI assistant for "Culinary Creations", a premium food portfolio website. ''
     @ nl @ ''Your role is to help customers with:''
     @ nl @ ''- Information about our dishes and menu items''
     @ nl @ ''- Culinary advice and cooking tips''
     @ nl @ ''- Event planning and catering inquiries''
     @ nl @ ''- Food recommendations based on preferences''
     @ nl @ ''- General information about our services''
     @ nl
     @ nl @ ''Always be friendly, professional, and knowledgeable about food and cooking.''
     @ nl @ ''If asked about specific dishes, refer to the portfolio context provided.''
     @ nl @ ''If you don't know something specific about our business, politely redirect them to contact us directly.''
     @ nl\<close>

definition dish_line :: "obj \<Rightarrow> jsval + string" where
  "dish_line dish =
     sum_bind (ToString (field dish ''title'')) (\<lambda>title.
     sum_bind (ToString (field dish ''description'')) (\<lambda>description.
     sum_bind (ToString (field dish ''category'')) (\<lambda>category.
       Inr (''- '' @ title @ '': '' @ description @ '' ('' @ category @ '')'' @ nl))))"

fun dish_lines :: "obj list \<Rightarrow> jsval + string" where
  "dish_lines [] = Inr []"
| "dish_lines (d # ds) =
     sum_bind (dish_line d) (\<lambda>line. sum_bind (dish_lines ds) (\<lambda>rest. Inr (line @ rest)))"

text \<open>The menu section of the prompt: added only for a context that is a non-empty array.\<close>

definition context_section :: "obj list option \<Rightarrow> jsval + string" where
  "context_section portfolioContext =
     (case portfolioContext of
        None \<Rightarrow> Inr []
      | Some [] \<Rightarrow> Inr []
      | Some (d # ds) \<Rightarrow>
          sum_bind (dish_lines (d # ds)) (\<lambda>lines.
            Inr (nl @ nl @ ''Our Current Menu Items:'' @ nl @ lines)))"

definition generateResponse :: "'s env \<Rightarrow> jsval \<Rightarrow> obj list option \<Rightarrow> ('s, obj) io" where
  "generateResponse E message portfolioContext =
     io_bind get_service (\<lambda>g.
       if \<not> isAvailable g
       then io_throw (Error ''Gemini AI service is not available. Please check your API key.'')
       else io_try
              (io_bind (io_of (context_section portfolioContext)) (\<lambda>section.
               io_bind (io_of (ToString message)) (\<lambda>question.
               io_bind (model_generateContent E
                          (systemContext @ section @ nl @ nl @ ''Customer Question: '' @ question))
                 (\<lambda>text.
                  io_bind (now_iso E) (\<lambda>t.
                    io_ret [(''success'', JBool True), (''message'', JStr text),
                            (''timestamp'', JStr t)])))))
              (\<lambda>err.
                 io_bind (message_includes err ''API_KEY_INVALID'') (\<lambda>invalid.
                   if invalid
                   then io_throw (Error ''Invalid Gemini API key. Please check your configuration.'')
                   else io_bind (message_includes err ''RATE_LIMIT_EXCEEDED'') (\<lambda>limited.
                          if limited
                          then io_throw (Error ''Rate limit exceeded. Please try again later.'')
                          else io_throw
                                 (Error ''Failed to generate response. Please try again.'')))))"

text \<open>
  \<open>dietaryRestrictions.length > 0 ? dietaryRestrictions.join(', ') : 'None'\<close>, by the kind
  of value: only an array has a \<open>join\<close> to call; a non-empty string, or an object whose
  \<open>length\<close> compares greater than zero, has none and the call throws a TypeError.
\<close>

definition restrictions_text :: "jsval \<Rightarrow> jsval + string" where
  \<open>restrictions_text v =
     (case v of
        JUndefined \<Rightarrow> Inl (Error ''Cannot read properties of undefined (reading 'length')'')
      | JNull \<Rightarrow> Inl (Error ''Cannot read properties of null (reading 'length')'')
      | JArr xs \<Rightarrow> if xs \<noteq> [] then array_join '', '' xs else Inr ''None''
      | JStr s \<Rightarrow>
          if s \<noteq> [] then Inl (Error ''dietaryRestrictions.join is not a function'')
          else Inr ''None''
      | JObj kvs \<Rightarrow>
          sum_bind (greater_than_zero (field kvs ''length'')) (\<lambda>positive.
            if positive then Inl (Error ''dietaryRestrictions.join is not a function'')
            else Inr ''None'')
      | _ \<Rightarrow> Inr ''None'')\<close>

definition generateFoodRecommendation :: "'s env \<Rightarrow> jsval \<Rightarrow> jsval \<Rightarrow> ('s, obj) io" where
  "generateFoodRecommendation E preferences dietaryRestrictions0 =
     (let dietaryRestrictions =
            (if dietaryRestrictions0 = JUndefined then JArr [] else dietaryRestrictions0)
      in io_bind get_service (\<lambda>g.
           if \<not> isAvailable g then io_throw (Error ''Gemini AI service is not available.'')
           else io_try
                  (io_bind (io_of (ToString preferences)) (\<lambda>prefs.
                   io_bind (io_of (restrictions_text dietaryRestrictions)) (\<lambda>restrictions.
                   io_bind (model_generateContent E
                              (nl @ ''As a culinary expert for Culinary Creations, recommend dishes based on these preferences:''
                               @ nl @ ''- Customer preferences: '' @ prefs
                               @ nl @ ''- Dietary restrictions: '' @ restrictions
                               @ nl
                               @ nl @ ''Please provide 2-3 specific dish recommendations with brief descriptions.''
                               @ nl @ ''Focus on dishes that would fit our upscale food portfolio.''
                               @ nl @ ''Be creative but realistic for a premium restaurant.''
                               @ nl))
                     (\<lambda>text.
                      io_bind (now_iso E) (\<lambda>t.
                        io_ret [(''success'', JBool True), (''recommendations'', JStr text),
                                (''timestamp'', JStr t)])))))
                  (\<lambda>err. io_throw (Error ''Failed to generate food recommendations.''))))"

definition generateCookingTip :: "'s env \<Rightarrow> jsval \<Rightarrow> ('s, obj) io" where
  "generateCookingTip E topic =
     io_bind get_service (\<lambda>g.
       if \<not> isAvailable g then io_throw (Error ''Gemini AI service is not available.'')
       else io_try
              (io_bind (io_of (ToString topic)) (\<lambda>about.
               io_bind (model_generateContent E
                          (nl @ ''As a professional chef from Culinary Creations, provide a helpful cooking tip about: ''
                           @ about @ nl @ nl
                           @ ''Make it practical, professional, and suitable for both home cooks and culinary enthusiasts.''
                           @ nl @ ''Keep it concise but informative.'' @ nl))
                 (\<lambda>text.
                  io_bind (now_iso E) (\<lambda>t.
                    io_ret [(''success'', JBool True), (''tip'', JStr text),
                            (''timestamp'', JStr t)]))))
              (\<lambda>err. io_throw (Error ''Failed to generate cooking tip.'')))"

definition testConnection :: "'s env \<Rightarrow> ('s, obj) io" where
  "testConnection E =
     io_bind get_service (\<lambda>g.
       if \<not> isAvailable g
       then io_ret [(''success'', JBool False), (''message'', JStr ''Gemini API key not configured'')]
       else io_try
              (io_bind (model_generateContent E ''Hello! Please respond with a brief greeting.'')
                 (\<lambda>text. io_ret [(''success'', JBool True),
                                  (''message'', JStr ''Gemini AI connection successful''),
                                  (''testResponse'', JStr text)]))
              (\<lambda>err. io_bind (error_message err) (\<lambda>m.
                        io_ret [(''success'', JBool False),
                                (''message'', JStr ''Failed to connect to Gemini AI''),
                                (''error'', m)])))"

subsection \<open>ChatbotController (server/controllers/chatbotController.js)\<close>

text \<open>
  \<open>!v || v.trim().length === 0\<close>: a falsy value is blank; a non-empty string is blank when
  it holds white space only; any other truthy value has no \<open>trim\<close> method and the call
  throws a TypeError.
\<close>

definition blank_text :: "string \<Rightarrow> jsval \<Rightarrow> ('s, bool) io" where
  "blank_text name v =
     (if \<not> truthy v then io_ret True
      else case v of
             JStr x \<Rightarrow> io_ret (length (trim x) = 0)
           | _ \<Rightarrow> io_throw (Error (name @ ''.trim is not a function'')))"

text \<open>The catalog context handed to the gateway: four fields of every available dish.\<close>

definition context_of :: "obj \<Rightarrow> obj" where
  "context_of dish =
     [(''title'', field dish ''title''), (''description'', field dish ''description''),
      (''category'', field dish ''category''), (''price'', field dish ''price'')]"

definition load_context :: "'s env \<Rightarrow> jsval \<Rightarrow> ('s, obj list option) io" where
  "load_context E includeContext =
     (if truthy includeContext
      then io_try
             (io_bind (DishModel_getAvailable E) (\<lambda>dishesResult.
                case data dishesResult of
                  Some rows \<Rightarrow> io_ret (Some (map context_of rows))
                | None \<Rightarrow> io_ret None))
             (\<lambda>contextError. io_ret None)
      else io_ret None)"

definition chat :: "'s env \<Rightarrow> obj \<Rightarrow> ('s, response) io" where
  \<open>chat E body =
     io_try
       (let message = field body ''message'';
            includeContext = field_default body ''includeContext'' (JBool True)
        in io_bind (blank_text ''message'' message) (\<lambda>blank.
             if blank
             then io_ret \<lparr>res_status = 400,
                          res_json = [(''success'', JBool False),
                                      (''message'', JStr ''Message is required'')]\<rparr>
             else io_bind get_service (\<lambda>g.
               if \<not> isAvailable g
               then io_ret \<lparr>res_status = 503,
                            res_json =
                              [(''success'', JBool False),
                               (''message'',
                                JStr ''AI chatbot service is currently unavailable. Please contact us directly for assistance.'')]\<rparr>
               else io_bind (load_context E includeContext) (\<lambda>portfolioContext.
                    io_bind (generateResponse E message portfolioContext) (\<lambda>aiResponse.
                      io_ret \<lparr>res_status = 200,
                              res_json =
                                [(''success'', JBool True),
                                 (''data'',
                                  JObj [(''userMessage'', message),
                                        (''aiResponse'', field aiResponse ''message''),
                                        (''timestamp'', field aiResponse ''timestamp''),
                                        (''contextIncluded'',
                                         JBool (portfolioContext \<noteq> None))])]\<rparr>)))))
       (\<lambda>err. io_bind (error_message err) (\<lambda>m.
          io_ret \<lparr>res_status = 500,
                  res_json =
                    [(''success'', JBool False),
                     (''message'',
                      js_or m (JStr ''Failed to process your message. Please try again.'')),
                     (''fallbackMessage'',
                      JStr ''I apologize, but I'm having trouble right now. Please feel free to contact us directly through our contact form for immediate assistance.'')]\<rparr>))\<close>

definition getFoodRecommendation :: "'s env \<Rightarrow> obj \<Rightarrow> ('s, response) io" where
  "getFoodRecommendation E body =
     io_try
       (let preferences = field body ''preferences'';
            dietaryRestrictions = field_default body ''dietaryRestrictions'' (JArr [])
        in io_bind (blank_text ''preferences'' preferences) (\<lambda>blank.
             if blank
             then io_ret \<lparr>res_status = 400,
                          res_json = [(''success'', JBool False),
                                      (''message'', JStr ''Food preferences are required'')]\<rparr>
             else io_bind get_service (\<lambda>g.
               if \<not> isAvailable g
               then io_ret \<lparr>res_status = 503,
                            res_json =
                              [(''success'', JBool False),
                               (''message'',
                                JStr ''Recommendation service is currently unavailable'')]\<rparr>
               else io_bind (generateFoodRecommendation E preferences dietaryRestrictions)
                      (\<lambda>recommendation.
                         io_ret \<lparr>res_status = 200,
                                 res_json =
                                   [(''success'', JBool True),
                                    (''data'',
                                     JObj [(''preferences'', preferences),
                                           (''dietaryRestrictions'', dietaryRestrictions),
                                           (''recommendations'',
                                            field recommendation ''recommendations''),
                                           (''timestamp'',
                                            field recommendation ''timestamp'')])]\<rparr>))))
       (\<lambda>err. io_bind (error_message err) (\<lambda>m.
          io_ret \<lparr>res_status = 500,
                  res_json = [(''success'', JBool False),
                              (''message'', js_or m (JStr ''Failed to generate recommendations''))]\<rparr>))"

definition getCookingTip :: "'s env \<Rightarrow> obj \<Rightarrow> ('s, response) io" where
  "getCookingTip E body =
     io_try
       (let topic = field body ''topic''
        in io_bind (blank_text ''topic'' topic) (\<lambda>blank.
             if blank
             then io_ret \<lparr>res_status = 400,
                          res_json = [(''success'', JBool False),
                                      (''message'', JStr ''Cooking topic is required'')]\<rparr>
             else io_bind get_service (\<lambda>g.
               if \<not> isAvailable g
               then io_ret \<lparr>res_status = 503,
                            res_json =
                              [(''success'', JBool False),
                               (''message'',
                                JStr ''Cooking tips service is currently unavailable'')]\<rparr>
               else io_bind (generateCookingTip E topic) (\<lambda>tip.
                      io_ret \<lparr>res_status = 200,
                              res_json =
                                [(''success'', JBool True),
                                 (''data'',
                                  JObj [(''topic'', topic),
                                        (''tip'', field tip ''tip''),
                                        (''timestamp'', field tip ''timestamp'')])]\<rparr>))))
       (\<lambda>err. io_bind (error_message err) (\<lambda>m.
          io_ret \<lparr>res_status = 500,
                  res_json = [(''success'', JBool False),
                              (''message'', js_or m (JStr ''Failed to generate cooking tip''))]\<rparr>))"

definition testAI :: "'s env \<Rightarrow> ('s, response) io" where
  "testAI E =
     io_try
       (io_bind (testConnection E) (\<lambda>r.
          io_ret \<lparr>res_status = (if truthy (field r ''success'') then 200 else 503),
                  res_json = r\<rparr>))
       (\<lambda>err. io_bind (error_message err) (\<lambda>m.
          io_ret \<lparr>res_status = 500,
                  res_json = [(''success'', JBool False),
                              (''message'', JStr ''Failed to test AI connection''),
                              (''error'', m)]\<rparr>))"

definition getStatus :: "'s env \<Rightarrow> ('s, response) io" where
  "getStatus E =
     io_try
       (io_bind get_service (\<lambda>g.
        io_bind (now_iso E) (\<lambda>t.
          io_ret \<lparr>res_status = 200,
                  res_json =
                    [(''success'', JBool True),
                     (''data'',
                      JObj [(''aiAvailable'', JBool (isAvailable g)),
                            (''capabilities'',
                             JArr [JStr ''General food and cooking questions'',
                                   JStr ''Menu item information'',
                                   JStr ''Food recommendations'',
                                   JStr ''Cooking tips and advice'',
                                   JStr ''Event planning assistance'']),
                            (''apiStatus'',
                             JStr (if isAvailable g then ''connected'' else ''disconnected'')),
                            (''lastUpdated'', JStr t)])]\<rparr>)))
       (\<lambda>err. io_ret \<lparr>res_status = 500,
                       res_json = [(''success'', JBool False),
                                   (''message'', JStr ''Failed to check chatbot status'')]\<rparr>)"

definition getConversationHistory :: "('s, response) io" where
  "getConversationHistory =
     io_try
       (io_ret \<lparr>res_status = 200,
                res_json =
                  [(''success'', JBool True),
                   (''data'',
                    JObj [(''conversations'', JArr []),
                          (''message'', JStr ''Conversation history feature coming soon'')])]\<rparr>)
       (\<lambda>err. io_ret \<lparr>res_status = 500,
                       res_json = [(''success'', JBool False),
                                   (''message'', JStr ''Failed to retrieve conversation history'')]\<rparr>)"

section \<open>Routes and the running process\<close>

text \<open>The liveness probe of the entry point (server/index.js), outside the controllers.\<close>

definition health :: "'s env \<Rightarrow> ('s, response) io" where
  "health E =
     io_bind (now_iso E) (\<lambda>t.
       io_ret \<lparr>res_status = 200,
               res_json =
                 [(''message'', JStr ''Food Portfolio API is running!''),
                  (''timestamp'', JStr t),
                  (''environment'',
                   js_or (case node_env E of None \<Rightarrow> JUndefined | Some x \<Rightarrow> JStr x)
                     (JStr ''development''))]\<rparr>)"

text \<open>
  The requests of the three route tables and the liveness probe, with the parts of the
  request the handler reads: query string, route parameters, body.
  A request that matches none of them reaches no handler: the entry point answers it from
  the static files or with its 404 fallback.
\<close>

datatype request =
    GET_portfolio obj
  | GET_portfolio_stats
  | GET_portfolio_categories
  | GET_portfolio_id obj
  | POST_portfolio obj
  | PUT_portfolio obj obj
  | DELETE_portfolio obj
  | POST_contact obj
  | GET_contact obj
  | GET_contact_stats
  | GET_contact_recent obj
  | GET_contact_search obj
  | GET_contact_id obj
  | PUT_contact_status obj obj
  | DELETE_contact obj
  | POST_chatbot_chat obj
  | POST_chatbot_recommend obj
  | POST_chatbot_cooking_tip obj
  | GET_chatbot_status
  | GET_chatbot_test
  | GET_chatbot_history
  | GET_health

fun route :: "'s env \<Rightarrow> request \<Rightarrow> ('s, response) io" where
  "route E (GET_portfolio query) = getAllDishes E query"
| "route E GET_portfolio_stats = getStats E"
| "route E GET_portfolio_categories = getCategories"
| "route E (GET_portfolio_id params) = getDishById E params"
| "route E (POST_portfolio body) = createDish E body"
| "route E (PUT_portfolio params body) = updateDish E params body"
| "route E (DELETE_portfolio params) = deleteDish E params"
| "route E (POST_contact body) = submitContact E body"
| "route E (GET_contact query) = getAllMessages E query"
| "route E GET_contact_stats = getContactStats E"
| "route E (GET_contact_recent query) = getRecentMessages E query"
| "route E (GET_contact_search query) = searchMessages E query"
| "route E (GET_contact_id params) = getMessageById E params"
| "route E (PUT_contact_status params body) = updateMessageStatus E params body"
| "route E (DELETE_contact params) = deleteMessage E params"
| "route E (POST_chatbot_chat body) = chat E body"
| "route E (POST_chatbot_recommend body) = getFoodRecommendation E body"
| "route E (POST_chatbot_cooking_tip body) = getCookingTip E body"
| "route E GET_chatbot_status = getStatus E"
| "route E GET_chatbot_test = testAI E"
| "route E GET_chatbot_history = getConversationHistory"
| "route E GET_health = health E"

text \<open>The world after the requests of a list were served one after the other.\<close>

fun serve :: "'s env \<Rightarrow> request list \<Rightarrow> 's world \<Rightarrow> 's world" where
  "serve E [] w = w"
| "serve E (r # rs) w = serve E rs (snd (route E r w))"

text \<open>Process start: the gateway object is built from the environment, nothing was sent yet.\<close>

definition startup :: "string option \<Rightarrow> 's \<Rightarrow> 's world" where
  "startup key s =
     \<lparr>store = s, queries = [], geminiService = GeminiService_new key, prompts = [], ticks = 0\<rparr>"

section \<open>The data layer as one interface\<close>

text \<open>Every operation of the data access helper and of the two repositories.\<close>

datatype dal_call =
    Helpers_select string string obj
  | Helpers_insert string obj
  | Helpers_update string jsval obj
  | Helpers_delete string jsval
  | Dish_getAll jsval
  | Dish_getById jsval
  | Dish_create obj
  | Dish_update jsval obj
  | Dish_delete jsval
  | Dish_getByCategory jsval
  | Dish_getFeatured
  | Dish_getAvailable
  | Dish_search jsval
  | Contact_create obj
  | Contact_getAll jsval
  | Contact_getById jsval
  | Contact_updateStatus jsval jsval
  | Contact_delete jsval
  | Contact_getByStatus jsval
  | Contact_getRecent jsnum
  | Contact_search jsval

datatype dal_result = Many result | Single one_result | Deleted del_result

definition many :: "('s, result) io \<Rightarrow> ('s, dal_result) io" where
  "many m = io_bind m (\<lambda>r. io_ret (Many r))"

definition single :: "('s, one_result) io \<Rightarrow> ('s, dal_result) io" where
  "single m = io_bind m (\<lambda>r. io_ret (Single r))"

definition deleted :: "('s, del_result) io \<Rightarrow> ('s, dal_result) io" where
  "deleted m = io_bind m (\<lambda>r. io_ret (Deleted r))"

fun run_call :: "'s env \<Rightarrow> dal_call \<Rightarrow> ('s, dal_result) io" where
  "run_call E (Helpers_select t c f) = many (dbHelpers_select E t c f)"
| "run_call E (Helpers_insert t d) = many (dbHelpers_insert E t d)"
| "run_call E (Helpers_update t i d) = many (dbHelpers_update E t i d)"
| "run_call E (Helpers_delete t i) = deleted (dbHelpers_delete E t i)"
| "run_call E (Dish_getAll c) = many (DishModel_getAll E c)"
| "run_call E (Dish_getById i) = single (DishModel_getById E i)"
| "run_call E (Dish_create d) = many (DishModel_create E d)"
| "run_call E (Dish_update i d) = many (DishModel_update E i d)"
| "run_call E (Dish_delete i) = deleted (DishModel_delete E i)"
| "run_call E (Dish_getByCategory c) = many (DishModel_getByCategory E c)"
| "run_call E Dish_getFeatured = many (DishModel_getFeatured E)"
| "run_call E Dish_getAvailable = many (DishModel_getAvailable E)"
| "run_call E (Dish_search t) = many (DishModel_search E t)"
| "run_call E (Contact_create d) = many (ContactModel_create E d)"
| "run_call E (Contact_getAll st) = many (ContactModel_getAll E st)"
| "run_call E (Contact_getById i) = single (ContactModel_getById E i)"
| "run_call E (Contact_updateStatus i st) = many (ContactModel_updateStatus E i st)"
| "run_call E (Contact_delete i) = deleted (ContactModel_delete E i)"
| "run_call E (Contact_getByStatus st) = many (ContactModel_getByStatus E st)"
| "run_call E (Contact_getRecent days) = many (ContactModel_getRecent E days)"
| "run_call E (Contact_search t) = many (ContactModel_search E t)"

text \<open>
  A store failure: the awaited query rejects with a thrown value, or resolves with an
  error that the caller's \<open>if (error)\<close> sees.
\<close>

fun failure_of :: "reply \<Rightarrow> jsval option" where
  "failure_of (Rejects x) = Some x"
| "failure_of (Resolves d e) = (if truthy e then Some e else None)"

text \<open>The failure shape of a result: \<open>{data: null, error}\<close>, for delete \<open>{error}\<close>.\<close>

fun failed_with :: "dal_result \<Rightarrow> jsval \<Rightarrow> bool" where
  "failed_with (Many r) x = (data r = None \<and> error r = x)"
| "failed_with (Single r) x = (one_data r = JNull \<and> one_error r = x)"
| "failed_with (Deleted r) x = (del_error r = x)"

section \<open>A reference database service\<close>

text \<open>
  Modelled from the spec: the hosted database behind the client library, which is not
  part of the repository. Where a property depends on what the database does with a
  query, this reference service stands for it: two tables of rows
  (server/database/schema.sql); select returns the rows that satisfy every equality
  filter; insert adds the row and returns it with its assigned identifier; update changes
  the rows whose id matches and returns them, an empty sequence when none matches; delete
  removes the rows whose id matches and returns no data. A \<open>fault\<close> makes the service fail
  the query in one of the two ways the client library reports failures; whatever makes
  the real service refuse a query (constraints, malformed identifiers, permissions, the
  network) is such a fault. The two hand-written query shapes (pattern search, date
  window) select rows by a function \<open>pick\<close> left open.
\<close>

record pg_db =
  dishes :: "obj list"
  contact_messages :: "obj list"
  next_id :: nat

datatype fault = NoFault | ErrorReply jsval | Throw jsval

definition table_rows :: "pg_db \<Rightarrow> string \<Rightarrow> obj list option" where
  "table_rows db t =
     (if t = ''dishes'' then Some (dishes db)
      else if t = ''contact_messages'' then Some (contact_messages db)
      else None)"

definition set_rows :: "pg_db \<Rightarrow> string \<Rightarrow> obj list \<Rightarrow> pg_db" where
  "set_rows db t rows =
     (if t = ''dishes'' then db\<lparr>dishes := rows\<rparr>
      else if t = ''contact_messages'' then db\<lparr>contact_messages := rows\<rparr>
      else db)"

definition row_matches :: "(string \<times> jsval) list \<Rightarrow> obj \<Rightarrow> bool" where
  "row_matches eqs r = list_all (\<lambda>(k, v). field r k = v) eqs"

definition merge_row :: "obj \<Rightarrow> obj \<Rightarrow> obj" where
  "merge_row r d = foldl (\<lambda>acc (k, v). obj_put acc k v) r d"

definition no_relation :: jsval where
  "no_relation = Error ''relation does not exist''"

definition pg_run :: "(query \<Rightarrow> obj list \<Rightarrow> obj list) \<Rightarrow> query \<Rightarrow> pg_db \<Rightarrow> reply \<times> pg_db" where
  "pg_run pick q db =
     (case q of
        QSelect t cols eqs \<Rightarrow>
          (case table_rows db t of
             None \<Rightarrow> (Resolves None no_relation, db)
           | Some rows \<Rightarrow> (Resolves (Some (filter (row_matches eqs) rows)) JNull, db))
      | QInsert t d \<Rightarrow>
          (case table_rows db t of
             None \<Rightarrow> (Resolves None no_relation, db)
           | Some rows \<Rightarrow>
               (let r = (if field d ''id'' = JUndefined
                         then (''id'', JStr (dec_of_nat (next_id db))) # d else d)
                in (Resolves (Some [r]) JNull,
                    (set_rows db t (rows @ [r]))\<lparr>next_id := Suc (next_id db)\<rparr>)))
      | QUpdate t i d \<Rightarrow>
          (case table_rows db t of
             None \<Rightarrow> (Resolves None no_relation, db)
           | Some rows \<Rightarrow>
               (Resolves (Some (map (\<lambda>r. merge_row r d)
                                  (filter (\<lambda>r. field r ''id'' = i) rows))) JNull,
                set_rows db t
                  (map (\<lambda>r. if field r ''id'' = i then merge_row r d else r) rows)))
      | QDelete t i \<Rightarrow>
          (case table_rows db t of
             None \<Rightarrow> (Resolves None no_relation, db)
           | Some rows \<Rightarrow>
               (Resolves None JNull, set_rows db t (filter (\<lambda>r. field r ''id'' \<noteq> i) rows)))
      | QSelectOr t cols expr ord \<Rightarrow>
          (case table_rows db t of
             None \<Rightarrow> (Resolves None no_relation, db)
           | Some rows \<Rightarrow> (Resolves (Some (pick q rows)) JNull, db))
      | QSelectGte t cols col v ord \<Rightarrow>
          (case table_rows db t of
             None \<Rightarrow> (Resolves None no_relation, db)
           | Some rows \<Rightarrow> (Resolves (Some (pick q rows)) JNull, db)))"

definition pg_client ::
  "fault \<Rightarrow> (query \<Rightarrow> obj list \<Rightarrow> obj list) \<Rightarrow> query \<Rightarrow> pg_db \<Rightarrow> reply \<times> pg_db" where
  "pg_client f pick q db =
     (case f of
        NoFault \<Rightarrow> pg_run pick q db
      | ErrorReply e \<Rightarrow> (Resolves None e, db)
      | Throw x \<Rightarrow> (Rejects x, db))"

section \<open>Queries the handlers are expected to send\<close>

text \<open>
  The contact listing reads the whole table, filtered by \<open>status\<close> when the query string
  carries a truthy one.
\<close>

definition listing_query :: "obj \<Rightarrow> query" where
  "listing_query query =
     QSelect ''contact_messages'' ''*''
       (if truthy (field query ''status'') then [(''status'', field query ''status'')] else [])"

text \<open>
  The dish listing calls one operation of the dish repository, chosen by the query string:
  a truthy \<open>search\<close> first, then \<open>featured\<close> equal to the string \<open>true\<close>, then
  \<open>available\<close> equal to the string \<open>true\<close>, then a truthy \<open>category\<close>, then
  the unfiltered list.
\<close>

definition dishes_operation :: "obj \<Rightarrow> dal_call" where
  "dishes_operation query =
     (if truthy (field query ''search'') then Dish_search (field query ''search'')
      else if field query ''featured'' = JStr ''true'' then Dish_getFeatured
      else if field query ''available'' = JStr ''true'' then Dish_getAvailable
      else if truthy (field query ''category'') then Dish_getByCategory (field query ''category'')
      else Dish_getAll JUndefined)"

text \<open>
  The chat handler reads the catalog of available dishes; what it gets from the store's
  reply is the rows, or nothing when the reply is a failure or carries no rows.
\<close>

definition catalog_query :: query where
  "catalog_query = QSelect ''dishes'' ''*'' [(''is_available'', JBool True)]"

fun catalog_of :: "reply \<Rightarrow> obj list option" where
  "catalog_of (Rejects x) = None"
| "catalog_of (Resolves d e) = (if truthy e then None else d)"

text \<open>
  The data value that the catalog fetch of a handler run returned, for a run that leads
  from the world \<open>w\<close> to the world \<open>w'\<close>. The run made the fetch when the catalog query is
  the one query it sent; the value is then the \<open>data\<close> of the repository's result, which is
  null for a fetch that failed. A run that made no fetch got no value.
\<close>

definition fetched_catalog :: "'s env \<Rightarrow> 's world \<Rightarrow> 's world \<Rightarrow> obj list option" where
  "fetched_catalog E w w' =
     (if queries w' = queries w @ [catalog_query]
      then (case fst (DishModel_getAvailable E w) of Inr r \<Rightarrow> data r | Inl e \<Rightarrow> None)
      else None)"

section \<open>Example configuration\<close>

definition demo_time :: string where
  "demo_time = ''2024-05-01T12:00:00.000Z''"

definition demo_dish :: "string \<Rightarrow> string \<Rightarrow> bool \<Rightarrow> obj" where
  "demo_dish i t f =
     [(''id'', JStr i), (''title'', JStr t), (''description'', JStr ''A dish''),
      (''category'', JStr ''mains''), (''is_featured'', JBool f), (''is_available'', JBool True)]"

definition demo_contact :: "string \<Rightarrow> string \<Rightarrow> obj" where
  "demo_contact i n =
     [(''id'', JStr i), (''name'', JStr n), (''email'', JStr ''a@b.co''),
      (''message'', JStr ''Hello''), (''status'', JStr ''new'')]"

definition demo_db :: pg_db where
  "demo_db =
     \<lparr>dishes = [demo_dish ''d1'' ''Seared Salmon'' True, demo_dish ''d2'' ''Tiramisu'' False],
      contact_messages = [demo_contact ''c1'' ''Ann'', demo_contact ''c2'' ''Bob'',
                          demo_contact ''c3'' ''Cy'', demo_contact ''c4'' ''Di''],
      next_id = 7\<rparr>"

definition demo_env :: "fault \<Rightarrow> pg_db env" where
  "demo_env f =
     \<lparr>client = pg_client f (\<lambda>q rows. rows),
      generateContent = (\<lambda>p. Inr ''Try the salmon.''),
      iso_time = (\<lambda>n. demo_time),
      iso_minus_days = (\<lambda>n d. Some demo_time),
      node_env = None\<rparr>"

definition demo_world :: "string option \<Rightarrow> pg_db world" where
  "demo_world key = startup key demo_db"

section \<open>Computations that leave the world alone\<close>

text \<open>A computation is pure when it neither sends anything nor reads the clock.\<close>

definition pure_io :: "('s, 'a) io \<Rightarrow> bool" where
  "pure_io m = (\<forall>w. snd (m w) = w)"

text \<open>
  A computation keeps the service when it leaves the AI gateway object as it found it;
  it is silent when, started with the gateway unavailable, it sends no prompt.
\<close>

definition keeps_service :: "('s, 'a) io \<Rightarrow> bool" where
  "keeps_service m = (\<forall>w. geminiService (snd (m w)) = geminiService w)"

definition silent :: "('s, 'a) io \<Rightarrow> bool" where
  "silent m = (\<forall>w. \<not> isAvailable (geminiService w) \<longrightarrow> prompts (snd (m w)) = prompts w)"

section \<open>Properties\<close>

lemmas io_defs = io_ret_def io_throw_def io_of_def io_bind_def io_try_def await_query_def
  now_iso_def

subsection \<open>Basic facts\<close>

lemma field_Nil: "field [] k = JUndefined"
  by (simp add: field_def)

lemma field_Cons: "field ((k', v) # ob) k = (if k' = k then v else field ob k)"
  by (simp add: field_def)

lemma pure_ret: "pure_io (io_ret x)"
  by (simp add: pure_io_def io_ret_def)

lemma pure_throw: "pure_io (io_throw x)"
  by (simp add: pure_io_def io_throw_def)

lemma io_bind_of_Inr: "io_bind (io_of (Inr x)) f = f x"
  by (rule ext) (simp add: io_bind_def io_of_def)

lemma io_bind_of_Inl: "io_bind (io_of (Inl e)) f = io_throw e"
  by (rule ext) (simp add: io_bind_def io_of_def io_throw_def)

lemma pure_of: "pure_io (io_of r)"
  by (simp add: pure_io_def io_of_def)

lemma pure_bind: "pure_io m \<Longrightarrow> (\<And>x. pure_io (f x)) \<Longrightarrow> pure_io (io_bind m f)"
  unfolding pure_io_def io_bind_def
  by (auto split: prod.splits sum.splits) (metis snd_conv)+

lemma pure_try: "pure_io m \<Longrightarrow> (\<And>x. pure_io (h x)) \<Longrightarrow> pure_io (io_try m h)"
  unfolding pure_io_def io_try_def
  by (auto split: prod.splits sum.splits) (metis snd_conv)+

lemma pure_if: "pure_io a \<Longrightarrow> pure_io b \<Longrightarrow> pure_io (if c then a else b)"
  by simp

lemma pure_error_message: "pure_io (error_message e)"
  by (cases e) (simp_all add: error_message_def pure_ret pure_throw)

lemma pure_index0: "pure_io (index0 d)"
  by (simp add: index0_def pure_ret pure_throw split: option.splits list.splits)

lemma pure_first_row: "pure_io (first_row d)"
  by (simp add: first_row_def pure_ret pure_throw split: option.splits list.splits)

lemma pure_store_error: "pure_io (store_error msg e)"
  by (simp add: store_error_def pure_bind pure_error_message pure_ret)

lemma pure_internal_error: "pure_io (internal_error e)"
  by (simp add: internal_error_def pure_bind pure_error_message pure_ret)

lemmas pure_intros = pure_ret pure_throw pure_of pure_bind pure_try pure_if pure_error_message pure_index0
  pure_first_row pure_store_error pure_internal_error

lemma handler_world:
  assumes "m w = (Inr r, w2)" and "pure_io (k r)" and "\<And>e. pure_io (h e)"
  shows "snd (io_try (io_bind m k) h w) = w2"
  using assms unfolding pure_io_def io_try_def io_bind_def
  by (auto split: prod.splits sum.splits) (metis snd_conv)+

lemma dbHelpers_insert_run:
  "\<exists>r. dbHelpers_insert E t d w =
         (Inr r, w\<lparr>store := snd (client E (QInsert t d) (store w)),
                   queries := queries w @ [QInsert t d]\<rparr>)"
  by (auto simp: dbHelpers_insert_def io_defs split: prod.splits reply.splits)

subsection \<open>Decimal strings are read back by \<open>parseInt\<close>\<close>

lemma digit_cases:
  "d < 10 \<Longrightarrow> d = 0 \<or> d = 1 \<or> d = 2 \<or> d = 3 \<or> d = 4 \<or> d = 5 \<or> d = 6 \<or> d = 7 \<or> d = 8 \<or> d = (9::nat)"
  by arith

lemma digit_char_literals:
  "digit_char 0 = CHR ''0''" "digit_char (Suc 0) = CHR ''1''" "digit_char 2 = CHR ''2''"
  "digit_char 3 = CHR ''3''" "digit_char 4 = CHR ''4''" "digit_char 5 = CHR ''5''"
  "digit_char 6 = CHR ''6''" "digit_char 7 = CHR ''7''" "digit_char 8 = CHR ''8''"
  "digit_char 9 = CHR ''9''"
  by code_simp+

lemma digit_char_props:
  assumes "d < 10"
  shows "digit_of (digit_char d) = Some d" and "\<not> is_ws (digit_char d)"
    and "digit_char d \<noteq> CHR ''-''" and "digit_char d \<noteq> CHR ''+''"
    and "digit_char d \<noteq> CHR ''x''" and "digit_char d \<noteq> CHR ''X''"
  using digit_cases [OF assms]
  by (auto simp: digit_char_literals digit_of_def is_ws_def)

lemma dec_digits: "c \<in> set (dec_of_nat n) \<Longrightarrow> \<exists>d < 10. c = digit_char d"
proof (induction n rule: dec_of_nat.induct)
  case (1 n)
  show ?case
  proof (cases "n < 10")
    case True
    with "1.prems" show ?thesis
      by (auto simp: dec_of_nat.simps [of n])
  next
    case False
    with "1.prems" "1.IH" show ?thesis
      by (auto simp: dec_of_nat.simps [of n] intro: exI [of _ "n mod 10"])
  qed
qed

lemma dec_nonempty: "dec_of_nat n \<noteq> []"
  by (subst dec_of_nat.simps) simp

lemma digits_value_snoc:
  "digits_value r (ds @ [c]) = digits_value r ds * r + digit_val c"
  by (simp add: digits_value_def)

lemma digits_value_dec: "digits_value 10 (dec_of_nat n) = n"
proof (induction n rule: dec_of_nat.induct)
  case (1 n)
  show ?case
  proof (cases "n < 10")
    case True
    then show ?thesis
      by (simp add: dec_of_nat.simps [of n] digits_value_def digit_val_def digit_char_props)
  next
    case False
    with "1.IH" show ?thesis
      by (simp add: dec_of_nat.simps [of n] digits_value_snoc digit_val_def digit_char_props)
  qed
qed

lemma takeWhile_dec: "takeWhile (is_digit 10) (dec_of_nat n) = dec_of_nat n"
proof -
  have "\<forall>c \<in> set (dec_of_nat n). is_digit 10 c"
    using dec_digits by (fastforce simp: is_digit_def digit_char_props)
  then show ?thesis
    by simp
qed

lemma parseInt_decimal: "parseInt (JStr (dec_of_nat n)) = Inr (Fin (int n))"
proof -
  obtain c cs where s: "dec_of_nat n = c # cs"
    using dec_nonempty [of n] by (cases "dec_of_nat n") auto
  then obtain d where d: "d < 10" "c = digit_char d"
    using dec_digits [of c n] by auto
  have second: "cs \<noteq> [] \<Longrightarrow> hd cs \<noteq> CHR ''x'' \<and> hd cs \<noteq> CHR ''X''"
  proof -
    assume "cs \<noteq> []"
    then have "hd cs \<in> set (dec_of_nat n)"
      using s by simp
    then obtain k where "k < 10" "hd cs = digit_char k"
      using dec_digits by blast
    then show ?thesis
      by (simp add: digit_char_props)
  qed
  have skip: "dropWhile is_ws (dec_of_nat n) = dec_of_nat n"
    using d s by (simp add: digit_char_props)
  have sign: "take (Suc 0) (dec_of_nat n) \<noteq> ''-''" "take (Suc 0) (dec_of_nat n) \<noteq> ''+''"
    using d s by (simp_all add: digit_char_props)
  have prefix: "take 2 (dec_of_nat n) \<noteq> ''0x''" "take 2 (dec_of_nat n) \<noteq> ''0X''"
    using second s by (cases cs; simp)+
  show ?thesis
    by (simp add: parseInt_def parseInt_string_def sum_bind_def Let_def skip sign prefix
          takeWhile_dec digits_value_dec dec_nonempty)
qed

subsection \<open>Pagination of the contact listing\<close>

lemma take_min_length: "take (min n (length ys)) ys = take n ys"
  by (simp add: min_def)

lemma slice_window:
  "slice xs (Fin (int a)) (Fin (int a + int n)) = take n (drop a xs)"
proof (cases "a \<le> length xs")
  case True
  then have "nat (min (int a + int n) (int (length xs)) - int a) = min n (length (drop a xs))"
    by (simp add: min_def) linarith
  with True show ?thesis
    by (simp add: slice_def Let_def min_absorb1 take_min_length del: length_drop)
next
  case False
  then show ?thesis
    by (simp add: slice_def Let_def min_def)
qed

lemma parseInt_two: "parseInt (JStr ''2'') = Inr (Fin 2)"
  by code_simp

lemma parseInt_one: "parseInt (JStr ''1'') = Inr (Fin 1)"
  by code_simp

lemma parseInt_defaults:
  "parseInt (JNum (Fin 50)) = Inr (Fin 50)" "parseInt (JNum (Fin 0)) = Inr (Fin 0)"
  "parseInt (JNum (Fin 30)) = Inr (Fin 30)"
  by code_simp+

text \<open>
  C1. \<open>GET /api/contact?limit=L&offset=O\<close>, with \<open>L\<close> and \<open>O\<close> the non-negative integers
  that \<open>parseInt\<close> reads from the parameters (50 and 0 when absent; by
  \<open>parseInt_decimal\<close> a decimal string is read as the number it writes): when the store
  answers the listing query with \<open>total\<close> rows and no error, the response is 200, its
  \<open>data\<close> is the window of \<open>L\<close> rows after the first \<open>O\<close>, of length
  \<open>min(L, max(0, total - O))\<close>, \<open>pagination.total\<close> is \<open>total\<close>, and
  \<open>pagination.has_more\<close> is true exactly when \<open>O + L < total\<close>.
\<close>

theorem pagination_law:
  assumes fetched: "client E (listing_query query) (store w) = (Resolves (Some rows) err, s')"
    and ok: "\<not> truthy err"
    and lim: "parseInt (field_default query ''limit'' (JNum (Fin 50))) = Inr (Fin (int L))"
    and off: "parseInt (field_default query ''offset'' (JNum (Fin 0))) = Inr (Fin (int ofs))"
  shows "\<exists>resp w' page pg.
           getAllMessages E query w = (Inr resp, w') \<and> res_status resp = 200 \<and>
           field (res_json resp) ''data'' = rows_json page \<and>
           page = take L (drop ofs rows) \<and>
           int (length page) = min (int L) (max 0 (int (length rows) - int ofs)) \<and>
           field (res_json resp) ''pagination'' = JObj pg \<and>
           field pg ''total'' = JNum (Fin (int (length rows))) \<and>
           field pg ''has_more'' = JBool (ofs + L < length rows)"
  using fetched ok lim off
  by (auto simp: getAllMessages_def listing_query_def ContactModel_getByStatus_def
        ContactModel_getAll_def ContactModel_tableName_def dbHelpers_select_def io_defs Let_def
        field_def slice_window rows_json_def)

theorem pagination_law_witness:
  "\<exists>resp w' pg.
     getAllMessages (demo_env NoFault) [(''limit'', JStr ''2''), (''offset'', JStr ''1'')]
       (demo_world None) = (Inr resp, w') \<and>
     res_status resp = 200 \<and>
     field (res_json resp) ''data''
       = rows_json [demo_contact ''c2'' ''Bob'', demo_contact ''c3'' ''Cy''] \<and>
     field (res_json resp) ''pagination'' = JObj pg \<and>
     field pg ''total'' = JNum (Fin 4) \<and>
     field pg ''has_more'' = JBool True"
proof -
  let ?q = "[(''limit'', JStr ''2''), (''offset'', JStr ''1'')]"
  have a: "client (demo_env NoFault) (listing_query ?q) (store (demo_world None))
             = (Resolves (Some (contact_messages demo_db)) JNull, demo_db)"
    by (simp add: demo_env_def demo_world_def startup_def listing_query_def field_def
          pg_client_def pg_run_def table_rows_def row_matches_def)
  have b: "\<not> truthy JNull" by simp
  have c: "parseInt (field_default ?q ''limit'' (JNum (Fin 50))) = Inr (Fin (int 2))"
    by (simp add: field_default_def field_def parseInt_two)
  have d: "parseInt (field_default ?q ''offset'' (JNum (Fin 0))) = Inr (Fin (int 1))"
    by (simp add: field_default_def field_def parseInt_one)
  from pagination_law [OF a b c d] show ?thesis
    by (auto simp: demo_db_def)
qed

subsection \<open>Store failures stay inside the data layer\<close>

text \<open>
  C7. Every operation of the data access helper (select, insert, update, delete) and every
  repository method returns a result for every input and every behaviour of the store,
  never throwing past its boundary; it sends at most one query, and when that query
  fails (the client throws \<open>x\<close> or answers with the error \<open>x\<close>) the result is
  \<open>{data: null, error: x}\<close>, for delete \<open>{error: x}\<close>.
\<close>

theorem data_layer_never_throws:
  "\<exists>r w'. run_call E c w = (Inr r, w') \<and>
     (queries w' = queries w \<or> (\<exists>q. queries w' = queries w @ [q])) \<and>
     (\<forall>q x. queries w' = queries w @ [q] \<longrightarrow>
            failure_of (fst (client E q (store w))) = Some x \<longrightarrow> failed_with r x)"
  by (cases c)
     (auto simp: io_defs many_def single_def deleted_def
        dbHelpers_select_def dbHelpers_insert_def dbHelpers_update_def dbHelpers_delete_def
        DishModel_getAll_def DishModel_getById_def DishModel_create_def DishModel_update_def
        DishModel_delete_def DishModel_getByCategory_def DishModel_getFeatured_def
        DishModel_getAvailable_def DishModel_search_def
        ContactModel_create_def ContactModel_getAll_def ContactModel_getById_def
        ContactModel_updateStatus_def ContactModel_delete_def ContactModel_getByStatus_def
        ContactModel_getRecent_def ContactModel_search_def threshold_iso_def first_or_null_def
        Let_def sum_bind_def
        split: prod.splits reply.splits sum.splits jsnum.splits option.splits)

theorem data_layer_never_throws_witness:
  "\<exists>r w'. run_call (demo_env (Throw (Error ''fetch failed''))) (Dish_getById (JStr ''d1''))
             (demo_world None) = (Inr r, w') \<and>
     failed_with r (Error ''fetch failed'')"
proof -
  let ?E = "demo_env (Throw (Error ''fetch failed''))"
  let ?q = "QSelect ''dishes'' ''*'' [(''id'', JStr ''d1'')]"
  obtain r w' where run: "run_call ?E (Dish_getById (JStr ''d1'')) (demo_world None) = (Inr r, w')"
    and fails: "\<forall>q x. queries w' = queries (demo_world None) @ [q] \<longrightarrow>
                  failure_of (fst (client ?E q (store (demo_world None)))) = Some x \<longrightarrow>
                  failed_with r x"
    using data_layer_never_throws [of ?E "Dish_getById (JStr ''d1'')" "demo_world None"]
    by blast
  have sent: "queries w' = queries (demo_world None) @ [?q]"
    using run
    by (auto simp: single_def DishModel_getById_def DishModel_tableName_def
          dbHelpers_select_def io_defs demo_env_def pg_client_def)
  have "failure_of (fst (client ?E ?q (store (demo_world None)))) = Some (Error ''fetch failed'')"
    by (simp add: demo_env_def pg_client_def)
  with fails sent have "failed_with r (Error ''fetch failed'')"
    by blast
  with run show ?thesis
    by blast
qed

subsection \<open>Dish creation defaults\<close>

lemma DishModel_create_run:
  "\<exists>r w2 row. DishModel_create E dishData w = (Inr r, w2) \<and>
     queries w2 = queries w @ [QInsert ''dishes'' row] \<and>
     field row ''is_available'' = JBool (field dishData ''is_available'' \<noteq> JBool False) \<and>
     field row ''ingredients'' = js_or (field dishData ''ingredients'') (JArr [])"
proof -
  let ?row = "\<lambda>c u. [(''title'', field dishData ''title''),
          (''description'', field dishData ''description''),
          (''category'', field dishData ''category''),
          (''image_url'', js_or (field dishData ''image_url'') JNull),
          (''price'', js_or (field dishData ''price'') JNull),
          (''ingredients'', js_or (field dishData ''ingredients'') (JArr [])),
          (''is_featured'', js_or (field dishData ''is_featured'') (JBool False)),
          (''is_available'', JBool (field dishData ''is_available'' \<noteq> JBool False)),
          (''created_at'', JStr c),
          (''updated_at'', JStr u)]"
  let ?w1 = "w\<lparr>ticks := Suc (Suc (ticks w))\<rparr>"
  let ?r = "?row (iso_time E (ticks w)) (iso_time E (Suc (ticks w)))"
  let ?w2 = "?w1\<lparr>store := snd (client E (QInsert ''dishes'' ?r) (store ?w1)),
                   queries := queries ?w1 @ [QInsert ''dishes'' ?r]\<rparr>"
  have unfold: "DishModel_create E dishData w = dbHelpers_insert E ''dishes'' ?r ?w1"
    by (simp add: DishModel_create_def DishModel_tableName_def io_bind_def now_iso_def)
  obtain r where "dbHelpers_insert E ''dishes'' ?r ?w1 = (Inr r, ?w2)"
    using dbHelpers_insert_run by blast
  with unfold have "DishModel_create E dishData w = (Inr r, ?w2)"
    by simp
  moreover have "queries ?w2 = queries w @ [QInsert ''dishes'' ?r]"
    by simp
  moreover have "field ?r ''is_available'' = JBool (field dishData ''is_available'' \<noteq> JBool False)"
    by (simp add: field_Cons)
  moreover have "field ?r ''ingredients'' = js_or (field dishData ''ingredients'') (JArr [])"
    by (simp add: field_Cons)
  ultimately show ?thesis
    by blast
qed

text \<open>
  C3. For every dish-creation input whose title, description and category pass the
  handler's check, exactly one record is passed to the store, an insert into \<open>dishes\<close>;
  its \<open>is_available\<close> is true unless the input's \<open>is_available\<close> is the boolean false
  (then it is false), and its \<open>ingredients\<close> is the empty list whenever the input omits
  \<open>ingredients\<close>.
\<close>

theorem create_defaults:
  assumes "truthy (field dishData ''title'')" and "truthy (field dishData ''description'')"
    and "truthy (field dishData ''category'')"
  shows "\<exists>row. queries (snd (createDish E dishData w)) = queries w @ [QInsert ''dishes'' row] \<and>
           field row ''is_available'' = JBool (field dishData ''is_available'' \<noteq> JBool False) \<and>
           (field dishData ''ingredients'' = JUndefined \<longrightarrow> field row ''ingredients'' = JArr [])"
proof -
  obtain r w2 row where run: "DishModel_create E dishData w = (Inr r, w2)"
    and sent: "queries w2 = queries w @ [QInsert ''dishes'' row]"
    and avail: "field row ''is_available'' = JBool (field dishData ''is_available'' \<noteq> JBool False)"
    and ingr: "field row ''ingredients'' = js_or (field dishData ''ingredients'') (JArr [])"
    using DishModel_create_run by blast
  have "snd (createDish E dishData w) = w2"
    using assms unfolding createDish_def
    by (simp add: handler_world [where m = "DishModel_create E dishData", OF run] pure_intros)
  with sent avail ingr show ?thesis
    by (auto simp: js_or_def)
qed

theorem create_defaults_witness:
  "\<exists>row. queries (snd (createDish (demo_env NoFault)
                          [(''title'', JStr ''Soup''), (''description'', JStr ''Hot''),
                           (''category'', JStr ''appetizers'')] (demo_world None)))
            = [QInsert ''dishes'' row] \<and>
         field row ''is_available'' = JBool True \<and> field row ''ingredients'' = JArr []"
  using create_defaults [of "[(''title'', JStr ''Soup''), (''description'', JStr ''Hot''),
                           (''category'', JStr ''appetizers'')]" "demo_env NoFault" "demo_world None"]
  by (simp add: field_Cons field_Nil demo_world_def startup_def)

subsection \<open>The matcher decides the language of the pattern\<close>

lemma nullable_lang: "nullable r \<longleftrightarrow> [] \<in> lang r"
  by (induction r) (auto intro: star_nil)

lemma star_cons:
  "c # w \<in> star L \<longleftrightarrow> (\<exists>u v. w = u @ v \<and> c # u \<in> L \<and> v \<in> star L)"
proof
  assume "c # w \<in> star L"
  then show "\<exists>u v. w = u @ v \<and> c # u \<in> L \<and> v \<in> star L"
  proof (induction "c # w" arbitrary: w rule: star.induct)
    case (star_step u v)
    show ?case
    proof (cases u)
      case Nil
      with star_step show ?thesis by simp
    next
      case (Cons a u')
      with star_step.hyps show ?thesis by auto
    qed
  qed
next
  assume "\<exists>u v. w = u @ v \<and> c # u \<in> L \<and> v \<in> star L"
  then obtain u v where "w = u @ v" "c # u \<in> L" "v \<in> star L"
    by blast
  then show "c # w \<in> star L"
    using star_step [of "c # u" L v] by simp
qed

lemma deriv_lang: "w \<in> lang (deriv c r) \<longleftrightarrow> c # w \<in> lang r"
proof (induction r arbitrary: w)
  case (Seq r s)
  show ?case
  proof
    assume "w \<in> lang (deriv c (Seq r s))"
    then consider u v where "w = u @ v" "u \<in> lang (deriv c r)" "v \<in> lang s"
      | "nullable r" "w \<in> lang (deriv c s)"
      by (auto split: if_splits)
    then show "c # w \<in> lang (Seq r s)"
    proof cases
      case 1
      then have "c # u \<in> lang r" using Seq.IH(1) by simp
      with 1 show ?thesis by (auto intro: exI [of _ "c # u"])
    next
      case 2
      then have "[] \<in> lang r" "c # w \<in> lang s"
        using Seq.IH(2) by (simp_all add: nullable_lang)
      then show ?thesis by (auto intro: exI [of _ "[]"])
    qed
  next
    assume "c # w \<in> lang (Seq r s)"
    then obtain u v where uv: "c # w = u @ v" "u \<in> lang r" "v \<in> lang s"
      by auto
    show "w \<in> lang (deriv c (Seq r s))"
    proof (cases u)
      case Nil
      with uv have "nullable r" "w \<in> lang (deriv c s)"
        using Seq.IH(2) by (simp_all add: nullable_lang)
      then show ?thesis by simp
    next
      case (Cons a u')
      with uv have "a = c" "w = u' @ v" "u' \<in> lang (deriv c r)"
        using Seq.IH(1) by simp_all
      with uv show ?thesis by auto
    qed
  qed
next
  case (Star r)
  show ?case
    using Star.IH by (auto simp: star_cons)
qed auto

lemma derivs_lang: "nullable (derivs s r) \<longleftrightarrow> s \<in> lang r"
  by (induction s arbitrary: r) (simp_all add: nullable_lang deriv_lang)

lemma star_atoms: "w \<in> star {[c] | c. p c} \<longleftrightarrow> (\<forall>x \<in> set w. p x)"
proof
  assume "w \<in> star {[c] | c. p c}"
  then show "\<forall>x \<in> set w. p x"
    by (induction rule: star.induct) auto
next
  assume "\<forall>x \<in> set w. p x"
  then show "w \<in> star {[c] | c. p c}"
  proof (induction w)
    case Nil
    show ?case by (rule star_nil)
  next
    case (Cons a w)
    then have "[a] \<in> {[c] | c. p c}" "w \<in> star {[c] | c. p c}"
      by simp_all
    then have "[a] @ w \<in> star {[c] | c. p c}"
      by (rule star_step)
    then show ?case by simp
  qed
qed

lemma plus_atoms: "w \<in> lang (Plus_rexp (Atom p)) \<longleftrightarrow> w \<noteq> [] \<and> (\<forall>x \<in> set w. p x)"
proof
  assume "w \<in> lang (Plus_rexp (Atom p))"
  then show "w \<noteq> [] \<and> (\<forall>x \<in> set w. p x)"
    by (auto simp: Plus_rexp_def star_atoms)
next
  assume a: "w \<noteq> [] \<and> (\<forall>x \<in> set w. p x)"
  then obtain c cs where "w = [c] @ cs" "p c" "\<forall>x \<in> set cs. p x"
    by (cases w) auto
  then have "\<exists>u v. w = u @ v \<and> (\<exists>c. u = [c] \<and> p c) \<and> (\<forall>x \<in> set v. p x)"
    by blast
  then show "w \<in> lang (Plus_rexp (Atom p))"
    by (simp add: Plus_rexp_def star_atoms)
qed

lemma ToString_throws:
  "ToString v = Inl e \<Longrightarrow> e = Error ''Cannot convert object to primitive value''"
  "ToString_elements vs = Inl e \<Longrightarrow> e = Error ''Cannot convert object to primitive value''"
  by (induction v and vs rule: ToString_ToString_elements.induct)
     (auto split: sum.splits if_splits)

lemma emailRegex_matches:
  "regex_test emailRegex v = Inr True \<longleftrightarrow>
     (\<exists>a b c. ToString v = Inr (a @ ''@'' @ b @ ''.'' @ c) \<and> a \<noteq> [] \<and> b \<noteq> [] \<and> c \<noteq> [] \<and>
        (\<forall>x \<in> set (a @ b @ c). not_space_at x))"
proof (cases "ToString v")
  case (Inl e)
  then show ?thesis
    by (simp add: regex_test_def sum_bind_def)
next
  case (Inr s)
  have "s \<in> lang emailRegex \<longleftrightarrow>
     (\<exists>a b c. s = a @ ''@'' @ b @ ''.'' @ c \<and> a \<noteq> [] \<and> b \<noteq> [] \<and> c \<noteq> [] \<and>
        (\<forall>x \<in> set (a @ b @ c). not_space_at x))"
    unfolding emailRegex_def lang.simps(5) [of "Plus_rexp (Atom not_space_at)"]
      lang.simps(5) [of "Atom _"] lang.simps(3)
    by (simp add: plus_atoms) blast
  with Inr show ?thesis
    by (simp add: regex_test_def sum_bind_def derivs_lang)
qed

lemma regex_test_throws:
  "regex_test r v = Inl e \<Longrightarrow> e = Error ''Cannot convert object to primitive value''"
  using ToString_throws(1) [of v e]
  by (cases "ToString v") (simp_all add: regex_test_def sum_bind_def)

subsection \<open>Contact submission\<close>

lemma email_examples:
  "regex_test emailRegex (JStr ''not-an-email'') = Inr False"
  "regex_test emailRegex (JStr ''a@b.co'') = Inr True"
  "regex_test emailRegex (JStr ''a@b'') = Inr False"
  "regex_test emailRegex (JStr ''a b@c.d'') = Inr False"
  "regex_test emailRegex (JStr ''a@b@c.d'') = Inr False"
  "regex_test emailRegex (JArr [JStr ''x@y.z'']) = Inr True"
  "regex_test emailRegex (JObj [(''address'', JStr ''x@y.z'')]) = Inr False"
  "regex_test emailRegex (JObj [(''toString'', JStr ''x'')])
     = Inl (Error ''Cannot convert object to primitive value'')"
  by code_simp+

text \<open>
  C5 (amended). For every contact submission whose email does not match the email pattern
  (\<open>emailRegex_matches\<close> says which values match), the handler answers with
  \<open>success: false\<close> and leaves the world as it was: no query is sent, so the repository's
  create is never reached and nothing is written. The answer is 400 whenever the test of
  the email against the pattern returns; it does not return only for an email that
  cannot be converted to a string.
\<close>

theorem invalid_email_rejected:
  assumes "regex_test emailRegex (field contactData ''email'') \<noteq> Inr True"
  shows "\<exists>resp. submitContact E contactData w = (Inr resp, w) \<and>
           field (res_json resp) ''success'' = JBool False \<and>
           (regex_test emailRegex (field contactData ''email'') = Inr False \<longrightarrow>
              res_status resp = 400)"
proof (cases "regex_test emailRegex (field contactData ''email'')")
  case (Inl e)
  then have "e = Error ''Cannot convert object to primitive value''"
    by (rule regex_test_throws)
  with Inl show ?thesis
    by (simp add: submitContact_def io_try_def io_ret_def io_bind_def io_of_def
          internal_error_def error_message_def Error_def field_Cons)
next
  case (Inr b)
  with assms have "\<not> b"
    by simp
  with Inr show ?thesis
    by (simp add: submitContact_def io_try_def io_ret_def io_bind_def io_of_def field_Cons)
qed

theorem invalid_email_rejected_witness:
  "\<exists>resp. submitContact (demo_env NoFault)
            [(''name'', JStr ''Ann''), (''email'', JStr ''not-an-email''), (''message'', JStr ''Hi'')]
            (demo_world None) = (Inr resp, demo_world None) \<and>
          res_status resp = 400 \<and> field (res_json resp) ''success'' = JBool False"
proof -
  have "regex_test emailRegex (JStr ''not-an-email'') = Inr False"
    by code_simp
  then show ?thesis
    using invalid_email_rejected [of "[(''name'', JStr ''Ann''), (''email'', JStr ''not-an-email''),
            (''message'', JStr ''Hi'')]" "demo_env NoFault" "demo_world None"]
    by (auto simp: field_Cons)
qed

text \<open>
  C5 as stated fails: the email \<open>{"toString": "x"}\<close> does not match the pattern, yet the
  test throws a TypeError inside the handler's \<open>try\<close> and the answer is 500, not 400.
\<close>

theorem email_object_counterexample:
  "regex_test emailRegex (JObj [(''toString'', JStr ''x'')]) \<noteq> Inr True \<and>
   submitContact (demo_env NoFault)
     [(''name'', JStr ''Ann''), (''email'', JObj [(''toString'', JStr ''x'')]),
      (''message'', JStr ''Hi'')]
     (demo_world None)
   = (Inr \<lparr>res_status = 500,
           res_json = [(''success'', JBool False), (''message'', JStr ''Internal server error''),
                       (''error'', JStr ''Cannot convert object to primitive value'')]\<rparr>,
      demo_world None)"
proof -
  have "regex_test emailRegex (JObj [(''toString'', JStr ''x'')])
          = Inl (Error ''Cannot convert object to primitive value'')"
    by code_simp
  then show ?thesis
    by (simp add: submitContact_def io_try_def io_ret_def io_bind_def io_of_def
          internal_error_def error_message_def Error_def field_Cons field_Nil)
qed

lemma ContactModel_create_run:
  "\<exists>r w2 row. ContactModel_create E contactData w = (Inr r, w2) \<and>
     queries w2 = queries w @ [QInsert ''contact_messages'' row] \<and>
     field row ''status'' = JStr ''new'' \<and> field row ''id'' = JUndefined \<and>
     store w2 = snd (client E (QInsert ''contact_messages'' row) (store w))"
proof -
  let ?r = "[(''name'', field contactData ''name''),
          (''email'', field contactData ''email''),
          (''phone'', js_or (field contactData ''phone'') JNull),
          (''event_type'', js_or (field contactData ''eventType'') JNull),
          (''guests'', js_or (field contactData ''guests'') JNull),
          (''preferred_date'', js_or (field contactData ''date'') JNull),
          (''message'', field contactData ''message''),
          (''status'', JStr ''new''),
          (''created_at'', JStr (iso_time E (ticks w))),
          (''updated_at'', JStr (iso_time E (Suc (ticks w))))]"
  let ?w1 = "w\<lparr>ticks := Suc (Suc (ticks w))\<rparr>"
  let ?w2 = "?w1\<lparr>store := snd (client E (QInsert ''contact_messages'' ?r) (store ?w1)),
                   queries := queries ?w1 @ [QInsert ''contact_messages'' ?r]\<rparr>"
  have unfold: "ContactModel_create E contactData w = dbHelpers_insert E ''contact_messages'' ?r ?w1"
    by (simp add: ContactModel_create_def ContactModel_tableName_def io_bind_def now_iso_def)
  obtain r where "dbHelpers_insert E ''contact_messages'' ?r ?w1 = (Inr r, ?w2)"
    using dbHelpers_insert_run by blast
  with unfold have "ContactModel_create E contactData w = (Inr r, ?w2)"
    by simp
  moreover have "queries ?w2 = queries w @ [QInsert ''contact_messages'' ?r]"
    by simp
  moreover have "field ?r ''status'' = JStr ''new''" "field ?r ''id'' = JUndefined"
    by (simp_all add: field_Cons field_Nil)
  moreover have "store ?w2 = snd (client E (QInsert ''contact_messages'' ?r) (store w))"
    by simp
  ultimately show ?thesis
    by blast
qed

lemma pg_insert_contact:
  assumes "field row ''id'' = JUndefined"
  shows "contact_messages (snd (pg_client NoFault pick (QInsert ''contact_messages'' row) db))
           = contact_messages db @ [(''id'', JStr (dec_of_nat (next_id db))) # row]"
  using assms
  by (simp add: pg_client_def pg_run_def table_rows_def set_rows_def Let_def)

lemma contact_stored_new:
  assumes cl: "client E = pg_client NoFault pick"
    and valid: "truthy (field contactData ''name'')" "truthy (field contactData ''email'')"
      "truthy (field contactData ''message'')"
      "regex_test emailRegex (field contactData ''email'') = Inr True"
  shows "\<exists>stored. contact_messages (store (snd (submitContact E contactData w)))
                    = contact_messages (store w) @ [stored] \<and>
                  field stored ''status'' = JStr ''new''"
proof -
  obtain r w2 row where run: "ContactModel_create E contactData w = (Inr r, w2)"
    and new: "field row ''status'' = JStr ''new''"
    and noid: "field row ''id'' = JUndefined"
    and st: "store w2 = snd (client E (QInsert ''contact_messages'' row) (store w))"
    using ContactModel_create_run by blast
  have "snd (submitContact E contactData w) = w2"
    using valid unfolding submitContact_def
    by (simp add: io_bind_of_Inr
          handler_world [where m = "ContactModel_create E contactData", OF run] pure_intros)
  then have "contact_messages (store (snd (submitContact E contactData w)))
               = contact_messages (store w) @ [(''id'', JStr (dec_of_nat (next_id (store w)))) # row]"
    using st cl pg_insert_contact [OF noid] by simp
  moreover have "field ((''id'', JStr (dec_of_nat (next_id (store w)))) # row) ''status'' = JStr ''new''"
    using new by (simp add: field_Cons)
  ultimately show ?thesis
    by blast
qed

text \<open>
  C9. A contact submission that passes validation sends exactly one insert into
  \<open>contact_messages\<close>, whose record has status \<open>new\<close>; any other submission sends
  nothing. A \<open>status\<close> supplied by the client changes nothing at all: the handler behaves
  on the body with it exactly as on the body without it. (On the reference service the
  row then stored has status \<open>new\<close>: \<open>contact_stored_new\<close>.)
\<close>

theorem contact_created_new:
  "(if truthy (field contactData ''name'') \<and> truthy (field contactData ''email'') \<and>
       truthy (field contactData ''message'') \<and>
       regex_test emailRegex (field contactData ''email'') = Inr True
    then \<exists>row. queries (snd (submitContact E contactData w))
                  = queries w @ [QInsert ''contact_messages'' row] \<and>
               field row ''status'' = JStr ''new''
    else queries (snd (submitContact E contactData w)) = queries w) \<and>
   submitContact E ((''status'', v) # contactData) w = submitContact E contactData w"
proof -
  obtain r w2 row where run: "ContactModel_create E contactData w = (Inr r, w2)"
    and sent: "queries w2 = queries w @ [QInsert ''contact_messages'' row]"
    and new: "field row ''status'' = JStr ''new''"
    using ContactModel_create_run by blast
  have valid: "snd (submitContact E contactData w) = w2"
    if "truthy (field contactData ''name'')" "truthy (field contactData ''email'')"
       "truthy (field contactData ''message'')"
       "regex_test emailRegex (field contactData ''email'') = Inr True"
    using that unfolding submitContact_def
    by (simp add: io_bind_of_Inr
          handler_world [where m = "ContactModel_create E contactData", OF run] pure_intros)
  have invalid: "snd (submitContact E contactData w) = w"
    if "\<not> (truthy (field contactData ''name'') \<and> truthy (field contactData ''email'') \<and>
       truthy (field contactData ''message'') \<and>
       regex_test emailRegex (field contactData ''email'') = Inr True)"
  proof -
    have "pure_io (submitContact E contactData)"
    proof (cases "regex_test emailRegex (field contactData ''email'')")
      case (Inl e)
      then show ?thesis
        by (simp add: submitContact_def io_bind_of_Inl pure_intros)
    next
      case (Inr b)
      with that show ?thesis
        by (cases b) (simp_all add: submitContact_def io_bind_of_Inr pure_intros)
    qed
    then show ?thesis
      by (simp add: pure_io_def)
  qed
  have "ContactModel_create E ((''status'', v) # contactData) = ContactModel_create E contactData"
    by (simp add: ContactModel_create_def field_Cons)
  then have same: "submitContact E ((''status'', v) # contactData) w = submitContact E contactData w"
    by (simp add: submitContact_def field_Cons cong: if_cong)
  from valid invalid sent new same show ?thesis
    by auto
qed

theorem contact_created_new_witness:
  "\<exists>row. queries (snd (submitContact (demo_env NoFault)
            [(''name'', JStr ''Ann''), (''email'', JStr ''a@b.co''), (''message'', JStr ''Hi''),
             (''status'', JStr ''archived'')]
            (demo_world None))) = [QInsert ''contact_messages'' row] \<and>
         field row ''status'' = JStr ''new''"
proof -
  have "regex_test emailRegex (JStr ''a@b.co'') = Inr True"
    by code_simp
  then show ?thesis
    using contact_created_new [of "[(''name'', JStr ''Ann''), (''email'', JStr ''a@b.co''),
            (''message'', JStr ''Hi''), (''status'', JStr ''archived'')]" "demo_env NoFault"
            "demo_world None"]
    by (simp add: field_Cons field_Nil demo_world_def startup_def)
qed

subsection \<open>Updating and deleting dishes on the reference service\<close>

lemma demo_client: "client (demo_env f) = pg_client f (\<lambda>q rows. rows)"
  by (simp add: demo_env_def)

lemma pg_update_no_match:
  assumes "\<forall>r \<in> set (dishes db). field r ''id'' \<noteq> i"
  shows "pg_client NoFault pick (QUpdate ''dishes'' i d) db = (Resolves (Some []) JNull, db)"
proof -
  from assms have "filter (\<lambda>r. field r ''id'' = i) (dishes db) = []"
    by (simp add: filter_empty_conv)
  moreover from assms have "map (\<lambda>r. if field r ''id'' = i then merge_row r d else r) (dishes db) = dishes db"
    by (simp add: map_idI)
  ultimately show ?thesis
    by (simp add: pg_client_def pg_run_def table_rows_def set_rows_def)
qed

lemma pg_delete_dishes:
  "pg_client NoFault pick (QDelete ''dishes'' i) db
     = (Resolves None JNull, db\<lparr>dishes := filter (\<lambda>r. field r ''id'' \<noteq> i) (dishes db)\<rparr>)"
  by (simp add: pg_client_def pg_run_def table_rows_def set_rows_def)

text \<open>
  C4. \<open>PUT /api/portfolio/:id\<close> on the reference service, for an id that no stored dish
  carries: the update matches no row and comes back as an empty data sequence with no
  error, the handler answers 404 with \<open>success: false\<close>, and the store is unchanged.
\<close>

theorem update_missing_is_404:
  assumes cl: "client E = pg_client NoFault pick"
    and missing: "\<forall>r \<in> set (dishes (store w)). field r ''id'' \<noteq> field params ''id''"
  shows "\<exists>resp w' r w2.
           updateDish E params dishData w = (Inr resp, w') \<and>
           res_status resp = 404 \<and> field (res_json resp) ''success'' = JBool False \<and>
           store w' = store w \<and>
           DishModel_update E (field params ''id'') dishData w = (Inr r, w2) \<and>
           data r = Some [] \<and> error r = JNull"
  using pg_update_no_match [OF missing]
  by (simp add: updateDish_def DishModel_update_def DishModel_tableName_def dbHelpers_update_def
        io_defs cl field_Cons)

theorem update_missing_is_404_witness:
  "\<exists>resp w'. updateDish (demo_env NoFault) [(''id'', JStr ''d9'')] [(''title'', JStr ''Stew'')]
               (demo_world None) = (Inr resp, w') \<and>
     res_status resp = 404 \<and> field (res_json resp) ''success'' = JBool False \<and>
     store w' = demo_db"
proof -
  have missing: "\<forall>r \<in> set (dishes (store (demo_world None))).
                  field r ''id'' \<noteq> field [(''id'', JStr ''d9'')] ''id''"
    by (simp add: demo_world_def startup_def demo_db_def demo_dish_def field_Cons)
  from update_missing_is_404 [OF demo_client missing, of "[(''title'', JStr ''Stew'')]"]
  show ?thesis
    by (auto simp: demo_world_def startup_def)
qed

text \<open>
  C6. \<open>DELETE /api/portfolio/:id\<close> on the reference service, for every id: two successive
  delete requests both answer 200 with \<open>success: true\<close>. The handler checks nothing but
  the error of the store's reply, and a delete that matches no row is not an error; the
  second delete leaves the store as the first left it.
\<close>

theorem delete_twice_200:
  assumes cl: "client E = pg_client NoFault pick"
  shows "\<exists>resp1 w1 resp2 w2.
           deleteDish E params w = (Inr resp1, w1) \<and>
           deleteDish E params w1 = (Inr resp2, w2) \<and>
           res_status resp1 = 200 \<and> field (res_json resp1) ''success'' = JBool True \<and>
           res_status resp2 = 200 \<and> field (res_json resp2) ''success'' = JBool True \<and>
           store w2 = store w1"
  by (simp add: deleteDish_def DishModel_delete_def DishModel_tableName_def dbHelpers_delete_def
        io_defs cl field_Cons pg_delete_dishes)

theorem delete_twice_200_witness:
  "\<exists>resp1 w1 resp2 w2.
     deleteDish (demo_env NoFault) [(''id'', JStr ''d1'')] (demo_world None) = (Inr resp1, w1) \<and>
     deleteDish (demo_env NoFault) [(''id'', JStr ''d1'')] w1 = (Inr resp2, w2) \<and>
     res_status resp1 = 200 \<and> res_status resp2 = 200"
  using delete_twice_200 [OF demo_client, of "[(''id'', JStr ''d1'')]" "demo_world None"]
  by blast

subsection \<open>Dispatch of the dish listing\<close>

lemma store_error_ok:
  "truthy e \<Longrightarrow> \<exists>resp. store_error msg e w = (Inr resp, w) \<and> res_status resp = 500"
  by (cases e) (simp_all add: store_error_def error_message_def io_bind_def io_ret_def)

lemma many_run:
  "m w = (Inr r, w') \<Longrightarrow> many m w = (Inr (Many r), w')"
  by (simp add: many_def io_bind_def io_ret_def)

lemma repo_total:
  "\<exists>r w'. dbHelpers_select E t c f w = (Inr r, w')"
  "\<exists>r w'. DishModel_search E x w = (Inr r, w')"
  by (auto simp: dbHelpers_select_def DishModel_search_def io_defs
        split: prod.splits reply.splits sum.splits)

text \<open>
  C2 (amended). \<open>GET /api/portfolio\<close> calls exactly one operation of the dish repository,
  \<open>dishes_operation\<close> of the query string: search when \<open>search\<close> is present and non-empty
  (truthy), otherwise the featured query when \<open>featured\<close> is \<open>'true'\<close>, otherwise the
  available query when \<open>available\<close> is \<open>'true'\<close>, otherwise the category filter when
  \<open>category\<close> is present and non-empty (truthy), otherwise all dishes. The handler's world
  is the one that operation leaves. When the result carries no error the response is 200
  with \<open>success: true\<close>, the rows as \<open>data\<close> and \<open>count\<close> equal to their number; otherwise
  it is 500.
\<close>

theorem dishes_dispatch:
  "\<exists>r w' resp.
     run_call E (dishes_operation query) w = (Inr (Many r), w') \<and>
     getAllDishes E query w = (Inr resp, w') \<and>
     (if truthy (error r) then res_status resp = 500
      else res_status resp = 200 \<and> field (res_json resp) ''success'' = JBool True \<and>
           field (res_json resp) ''data'' = rows_json (case data r of None \<Rightarrow> [] | Some rows \<Rightarrow> rows) \<and>
           field (res_json resp) ''count''
             = JNum (Fin (int (length (case data r of None \<Rightarrow> [] | Some rows \<Rightarrow> rows)))))"
proof -
  let ?m = "if truthy (field query ''search'') then DishModel_search E (field query ''search'')
              else if field query ''featured'' = JStr ''true'' then DishModel_getFeatured E
              else if field query ''available'' = JStr ''true'' then DishModel_getAvailable E
              else if truthy (field query ''category'') then DishModel_getByCategory E (field query ''category'')
              else DishModel_getAll E JUndefined"
  have "\<exists>r w'. ?m w = (Inr r, w')"
    by (simp add: DishModel_getFeatured_def DishModel_getAvailable_def DishModel_getByCategory_def
          DishModel_getAll_def repo_total)
  then obtain r w' where run: "?m w = (Inr r, w')"
    by blast
  have op: "run_call E (dishes_operation query) w = many ?m w"
    by (simp add: dishes_operation_def)
  have call: "run_call E (dishes_operation query) w = (Inr (Many r), w')"
    using run op by (simp add: many_def io_bind_def io_ret_def)
  show ?thesis
  proof (cases "truthy (error r)")
    case True
    then obtain resp where "store_error ''Error fetching dishes'' (error r) w' = (Inr resp, w')"
      and "res_status resp = 500"
      using store_error_ok by blast
    with True run call show ?thesis
      by (simp add: getAllDishes_def Let_def io_try_def io_bind_def)
  next
    case False
    with run call show ?thesis
      by (simp add: getAllDishes_def Let_def io_try_def io_bind_def io_ret_def field_Cons
            rows_json_def split: option.splits)
  qed
qed

theorem dishes_dispatch_witness:
  "\<exists>resp w'. getAllDishes (demo_env NoFault) [(''featured'', JStr ''true''), (''category'', JStr ''mains'')]
               (demo_world None) = (Inr resp, w') \<and>
     queries w' = [QSelect ''dishes'' ''*'' [(''is_featured'', JBool True)]] \<and>
     res_status resp = 200 \<and> field (res_json resp) ''count'' = JNum (Fin 1)"
proof -
  let ?q = "[(''featured'', JStr ''true''), (''category'', JStr ''mains'')]"
  have op: "dishes_operation ?q = Dish_getFeatured"
    by (simp add: dishes_operation_def field_Cons field_Nil)
  have run: "run_call (demo_env NoFault) Dish_getFeatured (demo_world None)
      = (Inr (Many \<lparr>data = Some [demo_dish ''d1'' ''Seared Salmon'' True], error = JNull\<rparr>),
         (demo_world None)\<lparr>queries := [QSelect ''dishes'' ''*'' [(''is_featured'', JBool True)]]\<rparr>)"
    by (simp add: many_def DishModel_getFeatured_def DishModel_tableName_def dbHelpers_select_def
          io_defs demo_env_def pg_client_def pg_run_def table_rows_def row_matches_def
          demo_world_def startup_def demo_db_def demo_dish_def field_Cons field_Nil)
  from dishes_dispatch [of "demo_env NoFault" ?q "demo_world None"] op run
  show ?thesis
    by auto
qed

text \<open>
  C2 as stated fails: with \<open>?search=&featured=true\<close> the parameter \<open>search\<close> is present (the
  empty string), yet the one query sent is the featured query, not the search query.
\<close>

theorem search_present_counterexample:
  "field [(''search'', JStr ''''), (''featured'', JStr ''true'')] ''search'' \<noteq> JUndefined \<and>
   queries (snd (getAllDishes (demo_env NoFault) [(''search'', JStr ''''), (''featured'', JStr ''true'')]
                   (demo_world None)))
     = [QSelect ''dishes'' ''*'' [(''is_featured'', JBool True)]] \<and>
   queries (snd (DishModel_search (demo_env NoFault) (JStr '''') (demo_world None)))
     = [QSelectOr ''dishes'' ''*'' ''title.ilike.%%,description.ilike.%%'' None]"
  by (simp add: getAllDishes_def DishModel_getFeatured_def DishModel_search_def
        DishModel_tableName_def dbHelpers_select_def
        io_defs demo_env_def pg_client_def pg_run_def table_rows_def row_matches_def
        demo_world_def startup_def demo_db_def demo_dish_def field_Cons field_Nil)

subsection \<open>The gateway object is never changed\<close>

lemma keeps_ret: "keeps_service (io_ret x)"
  by (simp add: keeps_service_def io_ret_def)

lemma keeps_throw: "keeps_service (io_throw x)"
  by (simp add: keeps_service_def io_throw_def)

lemma keeps_bind:
  assumes "keeps_service m" and "\<And>x. keeps_service (f x)"
  shows "keeps_service (io_bind m f)"
  unfolding keeps_service_def
proof
  fix w
  show "geminiService (snd (io_bind m f w)) = geminiService w"
  proof (cases "m w")
    case (Pair out w1)
    with assms(1) have w1: "geminiService w1 = geminiService w"
      by (metis keeps_service_def snd_conv)
    show ?thesis
    proof (cases out)
      case (Inl e)
      with Pair w1 show ?thesis by (simp add: io_bind_def)
    next
      case (Inr x)
      with Pair w1 assms(2) [of x] show ?thesis
        by (simp add: io_bind_def keeps_service_def)
    qed
  qed
qed

lemma keeps_try:
  assumes "keeps_service m" and "\<And>x. keeps_service (h x)"
  shows "keeps_service (io_try m h)"
  unfolding keeps_service_def
proof
  fix w
  show "geminiService (snd (io_try m h w)) = geminiService w"
  proof (cases "m w")
    case (Pair out w1)
    with assms(1) have w1: "geminiService w1 = geminiService w"
      by (metis keeps_service_def snd_conv)
    show ?thesis
    proof (cases out)
      case (Inl e)
      with Pair w1 assms(2) [of e] show ?thesis
        by (simp add: io_try_def keeps_service_def)
    next
      case (Inr x)
      with Pair w1 show ?thesis by (simp add: io_try_def)
    qed
  qed
qed

lemma keeps_if: "keeps_service a \<Longrightarrow> keeps_service b \<Longrightarrow> keeps_service (if c then a else b)"
  by simp

lemma keeps_await: "keeps_service (await_query E q)"
  by (simp add: keeps_service_def await_query_def split: prod.splits reply.splits)

lemma keeps_now: "keeps_service (now_iso E)"
  by (simp add: keeps_service_def now_iso_def)

lemma keeps_get_service: "keeps_service get_service"
  by (simp add: keeps_service_def get_service_def)

lemma keeps_generate: "keeps_service (model_generateContent E p)"
  by (simp add: keeps_service_def model_generateContent_def split: option.splits)

lemma keeps_pure: "pure_io m \<Longrightarrow> keeps_service m"
  by (simp add: keeps_service_def pure_io_def)

lemma keeps_threshold: "keeps_service (threshold_iso E d)"
  by (simp add: keeps_service_def threshold_iso_def)

lemma keeps_prod: "(\<And>a b. keeps_service (f a b)) \<Longrightarrow> keeps_service (case p of (a, b) \<Rightarrow> f a b)"
  by (cases p) simp

lemmas keeps_basic = keeps_ret keeps_throw keeps_bind keeps_try keeps_if keeps_await keeps_now
  keeps_get_service keeps_generate keeps_threshold keeps_prod
  keeps_pure [OF pure_error_message] keeps_pure [OF pure_index0] keeps_pure [OF pure_first_row]
  keeps_pure [OF pure_store_error] keeps_pure [OF pure_internal_error] keeps_pure [OF pure_of]

lemma keeps_select: "keeps_service (dbHelpers_select E t c f)"
  unfolding dbHelpers_select_def by (intro keeps_basic)

lemma keeps_insert: "keeps_service (dbHelpers_insert E t d)"
  unfolding dbHelpers_insert_def by (intro keeps_basic)

lemma keeps_update: "keeps_service (dbHelpers_update E t i d)"
  unfolding dbHelpers_update_def by (intro keeps_basic)

lemma keeps_delete: "keeps_service (dbHelpers_delete E t i)"
  unfolding dbHelpers_delete_def by (intro keeps_basic)

lemmas keeps_helpers = keeps_select keeps_insert keeps_update keeps_delete

lemma keeps_repositories:
  "keeps_service (DishModel_getAll E c)"
  "keeps_service (DishModel_getById E i)"
  "keeps_service (DishModel_create E d)"
  "keeps_service (DishModel_update E i d)"
  "keeps_service (DishModel_delete E i)"
  "keeps_service (DishModel_getByCategory E c)"
  "keeps_service (DishModel_getFeatured E)"
  "keeps_service (DishModel_getAvailable E)"
  "keeps_service (DishModel_search E x)"
  "keeps_service (ContactModel_create E d)"
  "keeps_service (ContactModel_getAll E c)"
  "keeps_service (ContactModel_getByStatus E c)"
  "keeps_service (ContactModel_getById E i)"
  "keeps_service (ContactModel_updateStatus E i c)"
  "keeps_service (ContactModel_delete E i)"
  "keeps_service (ContactModel_getRecent E n)"
  "keeps_service (ContactModel_search E x)"
  unfolding DishModel_getAll_def DishModel_create_def DishModel_update_def DishModel_delete_def
    DishModel_getByCategory_def DishModel_getFeatured_def DishModel_getAvailable_def
    DishModel_search_def ContactModel_create_def ContactModel_getAll_def
    ContactModel_getByStatus_def DishModel_getById_def ContactModel_getById_def
    ContactModel_updateStatus_def ContactModel_delete_def ContactModel_getRecent_def
    ContactModel_search_def Let_def
  by (intro keeps_basic keeps_helpers)+

lemma keeps_option:
  "keeps_service a \<Longrightarrow> (\<And>x. keeps_service (f x)) \<Longrightarrow>
   keeps_service (case d of None \<Rightarrow> a | Some x \<Rightarrow> f x)"
  by (cases d) simp_all

lemma keeps_message_includes: "keeps_service (message_includes e t)"
  unfolding message_includes_def
  by (intro keeps_basic) (simp add: keeps_ret keeps_throw split: jsval.splits)

lemma keeps_blank_text: "keeps_service (blank_text n v)"
  by (cases v) (simp_all add: blank_text_def keeps_ret keeps_throw)

lemma keeps_load_context: "keeps_service (load_context E inc)"
  unfolding load_context_def
  by (intro keeps_basic keeps_repositories keeps_option)

lemma keeps_gateway:
  "keeps_service (generateResponse E m ctx)"
  "keeps_service (generateCookingTip E t)"
  "keeps_service (testConnection E)"
  "keeps_service (generateFoodRecommendation E t r)"
  unfolding generateResponse_def generateCookingTip_def testConnection_def
    generateFoodRecommendation_def Let_def
  by (intro keeps_basic keeps_message_includes)+

lemma keeps_handlers:
  "keeps_service (getAllDishes E q)"
  "keeps_service (createDish E d)"
  "keeps_service (updateDish E p d)"
  "keeps_service (deleteDish E p)"
  "keeps_service (submitContact E d)"
  "keeps_service (getAllMessages E q)"
  "keeps_service (chat E b)"
  "keeps_service (getCookingTip E b)"
  "keeps_service (testAI E)"
  "keeps_service (getStatus E)"
  "keeps_service getConversationHistory"
  "keeps_service (getDishById E p)"
  "keeps_service getCategories"
  "keeps_service (getStats E)"
  "keeps_service (getMessageById E p)"
  "keeps_service (updateMessageStatus E p d)"
  "keeps_service (deleteMessage E p)"
  "keeps_service (getRecentMessages E q)"
  "keeps_service (searchMessages E q)"
  "keeps_service (getContactStats E)"
  "keeps_service (getFoodRecommendation E b)"
  "keeps_service (health E)"
  unfolding getAllDishes_def createDish_def updateDish_def deleteDish_def submitContact_def
    getAllMessages_def chat_def getCookingTip_def testAI_def getStatus_def
    getConversationHistory_def getDishById_def getCategories_def getStats_def
    getMessageById_def updateMessageStatus_def deleteMessage_def getRecentMessages_def
    searchMessages_def getContactStats_def getFoodRecommendation_def health_def Let_def
  by (intro keeps_basic keeps_repositories keeps_gateway keeps_blank_text keeps_load_context)+

lemma keeps_route: "keeps_service (route E r)"
  by (cases r) (simp_all add: keeps_handlers)

lemma silent_ret: "silent (io_ret x)"
  by (simp add: silent_def io_ret_def)

lemma silent_throw: "silent (io_throw x)"
  by (simp add: silent_def io_throw_def)

lemma silent_bind:
  fixes m :: "('s, 'a) io"
  assumes k: "keeps_service m" and m: "silent m" and f: "\<And>x. silent (f x)"
  shows "silent (io_bind m f)"
  unfolding silent_def
proof (intro allI impI)
  fix w :: "'s world"
  assume off: "\<not> isAvailable (geminiService w)"
  show "prompts (snd (io_bind m f w)) = prompts w"
  proof (cases "m w")
    case (Pair out w1)
    from k Pair have same: "geminiService w1 = geminiService w"
      by (metis keeps_service_def snd_conv)
    from m off Pair have quiet: "prompts w1 = prompts w"
      by (metis silent_def snd_conv)
    show ?thesis
    proof (cases out)
      case (Inl e)
      with Pair quiet show ?thesis by (simp add: io_bind_def)
    next
      case (Inr x)
      from f [of x] off same have "prompts (snd (f x w1)) = prompts w1"
        by (simp add: silent_def)
      with Inr Pair quiet show ?thesis by (simp add: io_bind_def)
    qed
  qed
qed

lemma silent_try:
  fixes m :: "('s, 'a) io"
  assumes k: "keeps_service m" and m: "silent m" and h: "\<And>x. silent (h x)"
  shows "silent (io_try m h)"
  unfolding silent_def
proof (intro allI impI)
  fix w :: "'s world"
  assume off: "\<not> isAvailable (geminiService w)"
  show "prompts (snd (io_try m h w)) = prompts w"
  proof (cases "m w")
    case (Pair out w1)
    from k Pair have same: "geminiService w1 = geminiService w"
      by (metis keeps_service_def snd_conv)
    from m off Pair have quiet: "prompts w1 = prompts w"
      by (metis silent_def snd_conv)
    show ?thesis
    proof (cases out)
      case (Inl e)
      from h [of e] off same have "prompts (snd (h e w1)) = prompts w1"
        by (simp add: silent_def)
      with Inl Pair quiet show ?thesis by (simp add: io_try_def)
    next
      case (Inr x)
      with Pair quiet show ?thesis by (simp add: io_try_def)
    qed
  qed
qed

lemma silent_guard:
  assumes "silent a"
  shows "silent (io_bind get_service (\<lambda>g. if \<not> isAvailable g then a else b g))"
  using assms by (simp add: silent_def io_bind_def get_service_def)

lemma silent_if: "silent a \<Longrightarrow> silent b \<Longrightarrow> silent (if c then a else b)"
  by simp

lemma silent_prod: "(\<And>a b. silent (f a b)) \<Longrightarrow> silent (case p of (a, b) \<Rightarrow> f a b)"
  by (cases p) simp

lemma silent_await: "silent (await_query E q)"
  by (simp add: silent_def await_query_def split: prod.splits reply.splits)

lemma silent_now: "silent (now_iso E)"
  by (simp add: silent_def now_iso_def)

lemma silent_get_service: "silent get_service"
  by (simp add: silent_def get_service_def)

lemma silent_pure: "pure_io m \<Longrightarrow> silent m"
  by (simp add: silent_def pure_io_def)

lemma silent_threshold: "silent (threshold_iso E d)"
  by (simp add: silent_def threshold_iso_def)

lemma silent_blank_text: "silent (blank_text n v)"
  by (cases v) (simp_all add: blank_text_def silent_ret silent_throw)

lemmas silent_basic = silent_ret silent_throw silent_guard silent_bind silent_try silent_if
  silent_prod silent_await silent_now silent_blank_text silent_get_service silent_threshold
  silent_pure [OF pure_error_message] silent_pure [OF pure_index0] silent_pure [OF pure_first_row]
  silent_pure [OF pure_store_error] silent_pure [OF pure_internal_error] silent_pure [OF pure_of]

lemmas keeps_all = keeps_basic keeps_helpers keeps_repositories keeps_gateway keeps_blank_text
  keeps_load_context keeps_message_includes

lemma silent_helpers:
  "silent (dbHelpers_select E t c f)"
  "silent (dbHelpers_insert E t d)"
  "silent (dbHelpers_update E t i d)"
  "silent (dbHelpers_delete E t i)"
  unfolding dbHelpers_select_def dbHelpers_insert_def dbHelpers_update_def dbHelpers_delete_def
  by (intro silent_basic keeps_all)+

lemma silent_repositories:
  "silent (DishModel_getAll E c)"
  "silent (DishModel_getById E i)"
  "silent (DishModel_create E d)"
  "silent (DishModel_update E i d)"
  "silent (DishModel_delete E i)"
  "silent (DishModel_getByCategory E c)"
  "silent (DishModel_getFeatured E)"
  "silent (DishModel_getAvailable E)"
  "silent (DishModel_search E x)"
  "silent (ContactModel_create E d)"
  "silent (ContactModel_getAll E c)"
  "silent (ContactModel_getByStatus E c)"
  "silent (ContactModel_getById E i)"
  "silent (ContactModel_updateStatus E i c)"
  "silent (ContactModel_delete E i)"
  "silent (ContactModel_getRecent E n)"
  "silent (ContactModel_search E x)"
  unfolding DishModel_getAll_def DishModel_create_def DishModel_update_def DishModel_delete_def
    DishModel_getByCategory_def DishModel_getFeatured_def DishModel_getAvailable_def
    DishModel_search_def ContactModel_create_def ContactModel_getAll_def
    ContactModel_getByStatus_def DishModel_getById_def ContactModel_getById_def
    ContactModel_updateStatus_def ContactModel_delete_def ContactModel_getRecent_def
    ContactModel_search_def Let_def
  by (intro silent_basic silent_helpers keeps_all)+

lemma silent_gateway:
  "silent (generateResponse E m ctx)"
  "silent (generateCookingTip E t)"
  "silent (testConnection E)"
  "silent (generateFoodRecommendation E t r)"
  unfolding generateResponse_def generateCookingTip_def testConnection_def
    generateFoodRecommendation_def Let_def
  by (rule silent_guard, rule silent_basic)+

lemma silent_handlers:
  "silent (getAllDishes E q)"
  "silent (createDish E d)"
  "silent (updateDish E p d)"
  "silent (deleteDish E p)"
  "silent (submitContact E d)"
  "silent (getAllMessages E q)"
  "silent (chat E b)"
  "silent (getCookingTip E b)"
  "silent (testAI E)"
  "silent (getStatus E)"
  "silent getConversationHistory"
  "silent (getDishById E p)"
  "silent getCategories"
  "silent (getStats E)"
  "silent (getMessageById E p)"
  "silent (updateMessageStatus E p d)"
  "silent (deleteMessage E p)"
  "silent (getRecentMessages E q)"
  "silent (searchMessages E q)"
  "silent (getContactStats E)"
  "silent (getFoodRecommendation E b)"
  "silent (health E)"
  unfolding getAllDishes_def createDish_def updateDish_def deleteDish_def submitContact_def
    getAllMessages_def chat_def getCookingTip_def testAI_def getStatus_def
    getConversationHistory_def getDishById_def getCategories_def getStats_def
    getMessageById_def updateMessageStatus_def deleteMessage_def getRecentMessages_def
    searchMessages_def getContactStats_def getFoodRecommendation_def health_def Let_def
  by (intro silent_basic silent_repositories silent_gateway keeps_all)+

lemma silent_route: "silent (route E r)"
  by (cases r) (simp_all add: silent_handlers)

lemma serve_service: "geminiService (serve E reqs w) = geminiService w"
proof (induction reqs arbitrary: w)
  case Nil
  show ?case by simp
next
  case (Cons r rs)
  have "geminiService (snd (route E r w)) = geminiService w"
    using keeps_route [of E r] by (simp add: keeps_service_def)
  with Cons.IH show ?case by simp
qed

lemma serve_silent:
  "\<not> isAvailable (geminiService w) \<Longrightarrow> prompts (serve E reqs w) = prompts w"
proof (induction reqs arbitrary: w)
  case Nil
  show ?case by simp
next
  case (Cons r rs)
  have same: "geminiService (snd (route E r w)) = geminiService w"
    using keeps_route [of E r] by (simp add: keeps_service_def)
  have quiet: "prompts (snd (route E r w)) = prompts w"
    using silent_route [of E r] Cons.prems by (simp add: silent_def)
  from Cons.IH [of "snd (route E r w)"] Cons.prems same quiet show ?case by simp
qed

lemma startup_unset: "\<not> isAvailable (geminiService (startup None s))"
  by (simp add: startup_def GeminiService_new_def isAvailable_def)

lemma chat_unavailable:
  assumes "\<not> isAvailable (geminiService w)" and "field body ''message'' = JStr m"
    and "trim m \<noteq> []"
  shows "\<exists>resp. chat E body w = (Inr resp, w) \<and> res_status resp = 503 \<and>
           field (res_json resp) ''success'' = JBool False"
proof -
  from assms(3) have "m \<noteq> []"
    by (auto simp: trim_def)
  with assms show ?thesis
    by (simp add: chat_def blank_text_def io_try_def io_bind_def io_ret_def get_service_def
          field_Cons Let_def)
qed

lemma status_unavailable:
  assumes "\<not> isAvailable (geminiService w)"
  shows "\<exists>resp w' d. getStatus E w = (Inr resp, w') \<and> res_status resp = 200 \<and>
           field (res_json resp) ''data'' = JObj d \<and>
           field d ''aiAvailable'' = JBool False \<and>
           field d ''apiStatus'' = JStr ''disconnected'' \<and> prompts w' = prompts w"
  using assms
  by (simp add: getStatus_def io_try_def io_bind_def io_ret_def get_service_def now_iso_def
        field_Cons)

text \<open>
  C8 (amended). When the credential is unset at process start, then after any sequence of
  requests to the routes of the service (all of \<open>route\<close>) the gateway is still unavailable
  and no prompt has been sent to the generation service; \<open>GET /api/chatbot/status\<close> answers \<open>aiAvailable: false\<close> and
  \<open>apiStatus: "disconnected"\<close>; and every \<open>POST /api/chatbot/chat\<close> whose message is a
  string with a character that is not white space answers 503 and leaves the world as it
  was (no network call, no query).
\<close>

theorem unset_credential_unavailable:
  assumes "w = serve E reqs (startup None s)"
  shows "\<not> isAvailable (geminiService w) \<and> prompts w = [] \<and>
         (\<exists>resp w' d. route E GET_chatbot_status w = (Inr resp, w') \<and> res_status resp = 200 \<and>
            field (res_json resp) ''data'' = JObj d \<and>
            field d ''aiAvailable'' = JBool False \<and>
            field d ''apiStatus'' = JStr ''disconnected'' \<and> prompts w' = prompts w) \<and>
         (\<forall>body m. field body ''message'' = JStr m \<and> trim m \<noteq> [] \<longrightarrow>
            (\<exists>resp. route E (POST_chatbot_chat body) w = (Inr resp, w) \<and>
               res_status resp = 503 \<and> field (res_json resp) ''success'' = JBool False))"
proof -
  have off: "\<not> isAvailable (geminiService w)"
    using assms startup_unset [of s] by (simp add: serve_service)
  have "prompts w = prompts (startup None s)"
    using assms serve_silent [OF startup_unset] by simp
  then have none: "prompts w = []"
    by (simp add: startup_def)
  from off none status_unavailable [OF off] chat_unavailable [OF off] show ?thesis
    by simp
qed

theorem unset_credential_unavailable_witness:
  "\<exists>resp. route (demo_env NoFault) (POST_chatbot_chat [(''message'', JStr ''Any specials?'')])
            (serve (demo_env NoFault)
               [GET_chatbot_test, POST_chatbot_recommend [(''preferences'', JStr ''spicy'')],
                POST_chatbot_chat [(''message'', JStr ''Hi'')], GET_contact_stats, GET_portfolio []]
               (startup None demo_db))
          = (Inr resp,
             serve (demo_env NoFault)
               [GET_chatbot_test, POST_chatbot_recommend [(''preferences'', JStr ''spicy'')],
                POST_chatbot_chat [(''message'', JStr ''Hi'')], GET_contact_stats, GET_portfolio []]
               (startup None demo_db)) \<and>
          res_status resp = 503"
proof -
  let ?reqs = "[GET_chatbot_test, POST_chatbot_recommend [(''preferences'', JStr ''spicy'')],
                POST_chatbot_chat [(''message'', JStr ''Hi'')], GET_contact_stats, GET_portfolio []]"
  let ?w = "serve (demo_env NoFault) ?reqs (startup None demo_db)"
  let ?body = "[(''message'', JStr ''Any specials?'')]"
  have t: "trim ''Any specials?'' \<noteq> []"
    by code_simp
  have m: "field ?body ''message'' = JStr ''Any specials?''"
    by (simp add: field_Cons)
  from unset_credential_unavailable [of ?w "demo_env NoFault" ?reqs demo_db, OF refl]
  have "\<forall>body m. field body ''message'' = JStr m \<and> trim m \<noteq> [] \<longrightarrow>
          (\<exists>resp. route (demo_env NoFault) (POST_chatbot_chat body) ?w = (Inr resp, ?w) \<and>
             res_status resp = 503 \<and> field (res_json resp) ''success'' = JBool False)"
    by blast
  with t m show ?thesis
    by blast
qed

text \<open>
  C8 as stated fails: the message \<open>" "\<close> is not empty, yet the handler trims it and
  answers 400 \<open>Message is required\<close>, not 503.
\<close>

theorem nonempty_message_counterexample:
  "'' '' \<noteq> [] \<and>
   fst (route (demo_env NoFault) (POST_chatbot_chat [(''message'', JStr '' '')]) (startup None demo_db))
     = Inr \<lparr>res_status = 400,
            res_json = [(''success'', JBool False), (''message'', JStr ''Message is required'')]\<rparr>"
proof -
  have "trim '' '' = []"
    by code_simp
  then show ?thesis
    by (simp add: chat_def blank_text_def io_try_def io_bind_def io_ret_def field_Cons Let_def)
qed

subsection \<open>The context flag of the chat handler\<close>

lemma getAvailable_run:
  "DishModel_getAvailable E w =
     (Inr \<lparr>data = catalog_of (fst (client E catalog_query (store w))),
           error = (case failure_of (fst (client E catalog_query (store w))) of
                      None \<Rightarrow> JNull | Some x \<Rightarrow> x)\<rparr>,
      w\<lparr>store := snd (client E catalog_query (store w)),
        queries := queries w @ [catalog_query]\<rparr>)"
  by (auto simp: DishModel_getAvailable_def DishModel_tableName_def dbHelpers_select_def
        catalog_query_def io_defs split: prod.splits reply.splits)

lemma load_context_run:
  "load_context E inc w =
     (if truthy inc
      then (Inr (map_option (map context_of) (catalog_of (fst (client E catalog_query (store w))))),
            w\<lparr>store := snd (client E catalog_query (store w)),
              queries := queries w @ [catalog_query]\<rparr>)
      else (Inr None, w))"
  by (simp add: load_context_def getAvailable_run io_try_def io_bind_def io_ret_def
        split: option.splits)

lemma fetched_catalog_run:
  "fetched_catalog E w w' =
     (if queries w' = queries w @ [catalog_query]
      then catalog_of (fst (client E catalog_query (store w))) else None)"
  by (simp add: fetched_catalog_def getAvailable_run)

lemma dish_lines_throws:
  "dish_lines rows = Inl e \<Longrightarrow> e = Error ''Cannot convert object to primitive value''"
proof (induction rows arbitrary: e)
  case Nil
  then show ?case by simp
next
  case (Cons r rows)
  then show ?case
    by (auto simp: dish_line_def sum_bind_def split: sum.splits dest: ToString_throws(1))
qed

lemma context_section_Some:
  "context_section (Some rows) =
     (if rows = [] then Inr []
      else sum_bind (dish_lines rows)
             (\<lambda>lines. Inr (nl @ nl @ ''Our Current Menu Items:'' @ nl @ lines)))"
  by (cases rows) (simp_all add: context_section_def)

lemma context_section_None: "context_section None = Inr []"
  by (simp add: context_section_def)

lemma generateResponse_run:
  assumes "isAvailable (geminiService w)" and "model (geminiService w) = Some mdl"
    and "context_section ctx = Inr section"
    and "generateContent E (systemContext @ section @ nl @ nl @ ''Customer Question: '' @ m)
           = Inr text"
  shows "generateResponse E (JStr m) ctx w =
           (Inr [(''success'', JBool True), (''message'', JStr text),
                 (''timestamp'', JStr (iso_time E (ticks w)))],
            w\<lparr>prompts := prompts w @ [systemContext @ section @ nl @ nl
                             @ ''Customer Question: '' @ m],
              ticks := Suc (ticks w)\<rparr>)"
  using assms
  by (simp add: generateResponse_def get_service_def model_generateContent_def io_defs Let_def)

lemma not_an_api_message:
  "\<not> str_includes ''Cannot convert object to primitive value'' ''API_KEY_INVALID''"
  "\<not> str_includes ''Cannot convert object to primitive value'' ''RATE_LIMIT_EXCEEDED''"
  by code_simp+

lemma generateResponse_fails:
  assumes "isAvailable (geminiService w)" and "context_section ctx = Inl e"
  shows "generateResponse E message ctx w =
           (Inl (Error ''Failed to generate response. Please try again.''), w)"
proof -
  from assms(2) have "\<exists>rows. ctx = Some rows \<and> rows \<noteq> [] \<and> dish_lines rows = Inl e"
    by (cases ctx) (auto simp: context_section_None context_section_Some sum_bind_def
          split: if_splits sum.splits)
  then have e: "e = Error ''Cannot convert object to primitive value''"
    using dish_lines_throws by blast
  show ?thesis
    using assms
    by (simp add: generateResponse_def get_service_def io_defs e message_includes_def
          error_message_def Error_def field_Cons not_an_api_message)
qed


lemma demo_available:
  "isAvailable (geminiService (demo_world (Some ''key'')))"
  "model (geminiService (demo_world (Some ''key''))) = Some ''gemini-1.5-flash''"
  by (simp_all add: demo_world_def startup_def GeminiService_new_def isAvailable_def)

lemma demo_catalog:
  "catalog_of (fst (client (demo_env NoFault) catalog_query (store (demo_world k))))
     = Some (dishes demo_db)"
  by (simp add: demo_env_def pg_client_def pg_run_def table_rows_def row_matches_def
        catalog_query_def demo_world_def startup_def demo_db_def demo_dish_def field_Cons)

lemma demo_lines:
  "dish_lines (map context_of (dishes demo_db))
     = Inr (''- Seared Salmon: A dish (mains)'' @ nl @ ''- Tiramisu: A dish (mains)'' @ nl)"
  by (simp add: demo_db_def demo_dish_def context_of_def dish_line_def sum_bind_def field_Cons)

text \<open>
  C10. In the chat handler, for a message that is a string with a character that is not
  white space, an available gateway and a generation service that answers:
  the handler fetches the catalog exactly when \<open>includeContext\<close> is truthy (absent counts as
  \<open>true\<close>), and in every 200 response \<open>contextIncluded\<close> is true if and only if
  \<open>includeContext\<close> is not \<open>false\<close> and the catalog fetch returned a non-null data value
  (\<open>fetched_catalog\<close>). When the fetch returned the empty list the response is 200 with
  \<open>contextIncluded: true\<close> and the prompt carries no menu section. When the fetch failed or
  returned null (or was not made) the response is still 200, with \<open>contextIncluded: false\<close>.
  A non-empty catalog is written into the prompt line by line; the response is 200 unless
  a title, description or category of the catalog cannot be converted to a string, and
  then it is 500 and no prompt is sent.
\<close>

theorem context_included_flag:
  assumes msg: "field body ''message'' = JStr m" and nonblank: "trim m \<noteq> []"
    and avail: "isAvailable (geminiService w)" and mdl: "model (geminiService w) = Some mdl"
    and gen: "\<And>p. generateContent E p = Inr (txt p)"
  shows "\<exists>resp w'.
           chat E body w = (Inr resp, w') \<and>
           queries w' = (if truthy (field_default body ''includeContext'' (JBool True))
                         then queries w @ [catalog_query] else queries w) \<and>
           (res_status resp = 200 \<longrightarrow>
              field (res_json resp) ''success'' = JBool True \<and>
              (\<exists>d. field (res_json resp) ''data'' = JObj d \<and>
                 field d ''contextIncluded''
                   = JBool (field_default body ''includeContext'' (JBool True) \<noteq> JBool False \<and>
                            fetched_catalog E w w' \<noteq> None))) \<and>
           (fetched_catalog E w w' = Some [] \<longrightarrow>
              res_status resp = 200 \<and>
              (\<exists>d. field (res_json resp) ''data'' = JObj d \<and>
                 field d ''contextIncluded'' = JBool True) \<and>
              prompts w' = prompts w @ [systemContext @ nl @ nl @ ''Customer Question: '' @ m]) \<and>
           (fetched_catalog E w w' = None \<longrightarrow>
              res_status resp = 200 \<and> field (res_json resp) ''success'' = JBool True \<and>
              (\<exists>d. field (res_json resp) ''data'' = JObj d \<and>
                 field d ''contextIncluded'' = JBool False) \<and>
              prompts w' = prompts w @ [systemContext @ nl @ nl @ ''Customer Question: '' @ m]) \<and>
           (\<forall>rows lines. fetched_catalog E w w' = Some rows \<and> rows \<noteq> [] \<and>
                dish_lines (map context_of rows) = Inr lines \<longrightarrow>
              res_status resp = 200 \<and>
              prompts w' = prompts w @ [systemContext @ nl @ nl @ ''Our Current Menu Items:'' @ nl
                                         @ lines @ nl @ nl @ ''Customer Question: '' @ m]) \<and>
           (\<forall>rows e. fetched_catalog E w w' = Some rows \<and>
                dish_lines (map context_of rows) = Inl e \<longrightarrow>
              res_status resp = 500 \<and> prompts w' = prompts w)"
proof -
  from nonblank have ne: "m \<noteq> []"
    by (auto simp: trim_def)
  let ?inc = "field_default body ''includeContext'' (JBool True)"
  let ?cat = "catalog_of (fst (client E catalog_query (store w)))"
  let ?ctx = "if truthy ?inc then ?cat else None"
  let ?w1 = "if truthy ?inc
             then w\<lparr>store := snd (client E catalog_query (store w)),
                    queries := queries w @ [catalog_query]\<rparr>
             else w"
  let ?arg = "map_option (map context_of) ?ctx"
  have load: "load_context E ?inc w = (Inr ?arg, ?w1)"
    by (simp add: load_context_run)
  have a1: "isAvailable (geminiService ?w1)" and m1: "model (geminiService ?w1) = Some mdl"
    using avail mdl by simp_all
  have fetched: "fetched_catalog E w w' = ?ctx" if "queries w' = queries ?w1" for w'
    using that by (simp add: fetched_catalog_run)
  have not_false: "?inc \<noteq> JBool False" if "?ctx \<noteq> None"
    using that by (auto split: if_splits)
  have start: \<open>chat E body w =
      (case generateResponse E (JStr m) ?arg ?w1 of
         (Inr aiResponse, w') \<Rightarrow>
           (Inr \<lparr>res_status = 200,
                 res_json = [(''success'', JBool True),
                             (''data'', JObj [(''userMessage'', JStr m),
                                              (''aiResponse'', field aiResponse ''message''),
                                              (''timestamp'', field aiResponse ''timestamp''),
                                              (''contextIncluded'', JBool (?arg \<noteq> None))])]\<rparr>, w')
       | (Inl err, w') \<Rightarrow>
           io_bind (error_message err) (\<lambda>msg.
             io_ret \<lparr>res_status = 500,
                     res_json =
                       [(''success'', JBool False),
                        (''message'',
                         js_or msg (JStr ''Failed to process your message. Please try again.'')),
                        (''fallbackMessage'',
                         JStr ''I apologize, but I'm having trouble right now. Please feel free to contact us directly through our contact form for immediate assistance.'')]\<rparr>) w')\<close>
    using msg ne nonblank avail load
    by (simp add: chat_def blank_text_def io_try_def io_bind_def io_ret_def get_service_def
          Let_def split: prod.splits sum.splits)
  show ?thesis
  proof (cases "context_section ?arg")
    case (Inr menu)
    let ?p = "systemContext @ menu @ nl @ nl @ ''Customer Question: '' @ m"
    let ?w2 = "?w1\<lparr>prompts := prompts ?w1 @ [?p], ticks := Suc (ticks ?w1)\<rparr>"
    let ?resp = "\<lparr>res_status = 200,
                 res_json = [(''success'', JBool True),
                             (''data'', JObj [(''userMessage'', JStr m),
                                              (''aiResponse'', JStr (txt ?p)),
                                              (''timestamp'', JStr (iso_time E (ticks ?w1))),
                                              (''contextIncluded'', JBool (?arg \<noteq> None))])]\<rparr>"
    note run = generateResponse_run [where w = ?w1, OF a1 m1 Inr gen]
    have chat: "chat E body w = (Inr ?resp, ?w2)"
      unfolding start run by (simp add: field_Cons)
    have q: "queries ?w2 = queries ?w1"
      by simp
    have f: "fetched_catalog E w ?w2 = ?ctx"
      using fetched [OF q] .
    have p: "prompts ?w2 = prompts w @ [?p]"
      by simp
    have none: "menu = []" if "?ctx = None \<or> ?ctx = Some []"
      using that Inr by (auto simp: context_section_None context_section_Some split: if_splits)
    have some: "menu = nl @ nl @ ''Our Current Menu Items:'' @ nl @ lines"
      if "?ctx = Some rows" "rows \<noteq> []" "dish_lines (map context_of rows) = Inr lines" for rows lines
      using that Inr by (auto simp: context_section_Some sum_bind_def split: if_splits)
    have ok: "dish_lines (map context_of rows) \<noteq> Inl e" if "?ctx = Some rows" for rows e
      using that Inr by (auto simp: context_section_Some sum_bind_def split: if_splits)
    have c1: "queries ?w2 = (if truthy ?inc then queries w @ [catalog_query] else queries w)"
      by simp
    have c2: "res_status ?resp = 200 \<longrightarrow>
              field (res_json ?resp) ''success'' = JBool True \<and>
              (\<exists>d. field (res_json ?resp) ''data'' = JObj d \<and>
                 field d ''contextIncluded''
                   = JBool (?inc \<noteq> JBool False \<and> fetched_catalog E w ?w2 \<noteq> None))"
      unfolding f using not_false by (auto simp: field_Cons)
    have c3: "fetched_catalog E w ?w2 = Some [] \<longrightarrow>
              res_status ?resp = 200 \<and>
              (\<exists>d. field (res_json ?resp) ''data'' = JObj d \<and>
                 field d ''contextIncluded'' = JBool True) \<and>
              prompts ?w2 = prompts w @ [systemContext @ nl @ nl @ ''Customer Question: '' @ m]"
      unfolding f p using none by (auto simp: field_Cons)
    have c4: "fetched_catalog E w ?w2 = None \<longrightarrow>
              res_status ?resp = 200 \<and> field (res_json ?resp) ''success'' = JBool True \<and>
              (\<exists>d. field (res_json ?resp) ''data'' = JObj d \<and>
                 field d ''contextIncluded'' = JBool False) \<and>
              prompts ?w2 = prompts w @ [systemContext @ nl @ nl @ ''Customer Question: '' @ m]"
      unfolding f p using none by (auto simp: field_Cons)
    have c5: "\<forall>rows lines. fetched_catalog E w ?w2 = Some rows \<and> rows \<noteq> [] \<and>
                dish_lines (map context_of rows) = Inr lines \<longrightarrow>
              res_status ?resp = 200 \<and>
              prompts ?w2 = prompts w @ [systemContext @ nl @ nl @ ''Our Current Menu Items:'' @ nl
                                         @ lines @ nl @ nl @ ''Customer Question: '' @ m]"
      unfolding f p using some by auto
    have c6: "\<forall>rows e. fetched_catalog E w ?w2 = Some rows \<and>
                dish_lines (map context_of rows) = Inl e \<longrightarrow>
              res_status ?resp = 500 \<and> prompts ?w2 = prompts w"
      unfolding f using ok by blast
    show ?thesis
      by (rule exI [of _ ?resp], rule exI [of _ ?w2]) (intro conjI chat c1 c2 c3 c4 c5 c6)
  next
    case (Inl e)
    let ?resp = \<open>\<lparr>res_status = 500,
                 res_json =
                   [(''success'', JBool False),
                    (''message'', JStr ''Failed to generate response. Please try again.''),
                    (''fallbackMessage'',
                     JStr ''I apologize, but I'm having trouble right now. Please feel free to contact us directly through our contact form for immediate assistance.'')]\<rparr>\<close>
    note run = generateResponse_fails [where w = ?w1 and message = "JStr m", OF a1 Inl]
    have chat: "chat E body w = (Inr ?resp, ?w1)"
      unfolding start run
      by (simp add: error_message_def Error_def field_Cons io_bind_def io_ret_def js_or_def)
    have f: "fetched_catalog E w ?w1 = ?ctx"
      using fetched [OF refl] .
    have rows: "\<exists>rows e. ?ctx = Some rows \<and> rows \<noteq> [] \<and> dish_lines (map context_of rows) = Inl e"
      using Inl
      by (cases ?ctx) (auto simp: context_section_None context_section_Some sum_bind_def
            split: if_splits sum.splits)
    have c1: "queries ?w1 = (if truthy ?inc then queries w @ [catalog_query] else queries w)"
      by simp
    have c2: "res_status ?resp = 200 \<longrightarrow>
              field (res_json ?resp) ''success'' = JBool True \<and>
              (\<exists>d. field (res_json ?resp) ''data'' = JObj d \<and>
                 field d ''contextIncluded''
                   = JBool (?inc \<noteq> JBool False \<and> fetched_catalog E w ?w1 \<noteq> None))"
      by simp
    have c3: "fetched_catalog E w ?w1 = Some [] \<longrightarrow>
              res_status ?resp = 200 \<and>
              (\<exists>d. field (res_json ?resp) ''data'' = JObj d \<and>
                 field d ''contextIncluded'' = JBool True) \<and>
              prompts ?w1 = prompts w @ [systemContext @ nl @ nl @ ''Customer Question: '' @ m]"
      unfolding f using rows by (auto split: if_splits)
    have c4: "fetched_catalog E w ?w1 = None \<longrightarrow>
              res_status ?resp = 200 \<and> field (res_json ?resp) ''success'' = JBool True \<and>
              (\<exists>d. field (res_json ?resp) ''data'' = JObj d \<and>
                 field d ''contextIncluded'' = JBool False) \<and>
              prompts ?w1 = prompts w @ [systemContext @ nl @ nl @ ''Customer Question: '' @ m]"
      unfolding f using rows by (auto split: if_splits)
    have c5: "\<forall>rows lines. fetched_catalog E w ?w1 = Some rows \<and> rows \<noteq> [] \<and>
                dish_lines (map context_of rows) = Inr lines \<longrightarrow>
              res_status ?resp = 200 \<and>
              prompts ?w1 = prompts w @ [systemContext @ nl @ nl @ ''Our Current Menu Items:'' @ nl
                                         @ lines @ nl @ nl @ ''Customer Question: '' @ m]"
      unfolding f using rows by (auto split: if_splits)
    have c6: "\<forall>rows e. fetched_catalog E w ?w1 = Some rows \<and>
                dish_lines (map context_of rows) = Inl e \<longrightarrow>
              res_status ?resp = 500 \<and> prompts ?w1 = prompts w"
      by simp
    show ?thesis
      by (rule exI [of _ ?resp], rule exI [of _ ?w1]) (intro conjI chat c1 c2 c3 c4 c5 c6)
  qed
qed


theorem context_included_flag_witness:
  "(\<exists>resp w' d. chat (demo_env NoFault) [(''message'', JStr ''Hi'')] (demo_world (Some ''key''))
                   = (Inr resp, w') \<and>
      queries w' = [catalog_query] \<and>
      fetched_catalog (demo_env NoFault) (demo_world (Some ''key'')) w' = Some (dishes demo_db) \<and>
      res_status resp = 200 \<and> field (res_json resp) ''data'' = JObj d \<and>
      field d ''contextIncluded'' = JBool True \<and>
      prompts w' = [systemContext @ nl @ nl @ ''Our Current Menu Items:'' @ nl
                     @ ''- Seared Salmon: A dish (mains)'' @ nl @ ''- Tiramisu: A dish (mains)'' @ nl
                     @ nl @ nl @ ''Customer Question: Hi'']) \<and>
   (\<exists>resp w' d. chat (demo_env NoFault) [(''message'', JStr ''Hi''), (''includeContext'', JNull)]
                   (demo_world (Some ''key'')) = (Inr resp, w') \<and>
      queries w' = [] \<and>
      fetched_catalog (demo_env NoFault) (demo_world (Some ''key'')) w' = None \<and>
      res_status resp = 200 \<and> field (res_json resp) ''data'' = JObj d \<and>
      field d ''contextIncluded'' = JBool False \<and>
      prompts w' = [systemContext @ nl @ nl @ ''Customer Question: Hi''])"
proof -
  let ?E = "demo_env NoFault"
  let ?w = "demo_world (Some ''key'')"
  have t: "trim ''Hi'' \<noteq> []"
    by code_simp
  have g: "\<And>p. generateContent ?E p = Inr ((\<lambda>p. ''Try the salmon.'') p)"
    by (simp add: demo_env_def)
  have start: "queries ?w = []" "prompts ?w = []"
    by (simp_all add: demo_world_def startup_def)
  have first: "\<exists>resp w' d. chat ?E [(''message'', JStr ''Hi'')] ?w = (Inr resp, w') \<and>
      queries w' = [catalog_query] \<and>
      fetched_catalog ?E ?w w' = Some (dishes demo_db) \<and>
      res_status resp = 200 \<and> field (res_json resp) ''data'' = JObj d \<and>
      field d ''contextIncluded'' = JBool True \<and>
      prompts w' = [systemContext @ nl @ nl @ ''Our Current Menu Items:'' @ nl
                     @ ''- Seared Salmon: A dish (mains)'' @ nl @ ''- Tiramisu: A dish (mains)'' @ nl
                     @ nl @ nl @ ''Customer Question: Hi'']"
  proof -
    let ?body = "[(''message'', JStr ''Hi'')]"
    have m: "field ?body ''message'' = JStr ''Hi''"
      by (simp add: field_Cons)
    have inc: "field_default ?body ''includeContext'' (JBool True) = JBool True"
      by (simp add: field_default_def field_Cons field_Nil)
    from context_included_flag [OF m t demo_available g]
    obtain resp w' where run: "chat ?E ?body ?w = (Inr resp, w')"
      and q: "queries w' = (if truthy (field_default ?body ''includeContext'' (JBool True))
                            then queries ?w @ [catalog_query] else queries ?w)"
      and flag: "res_status resp = 200 \<longrightarrow>
              field (res_json resp) ''success'' = JBool True \<and>
              (\<exists>d. field (res_json resp) ''data'' = JObj d \<and>
                 field d ''contextIncluded''
                   = JBool (field_default ?body ''includeContext'' (JBool True) \<noteq> JBool False \<and>
                            fetched_catalog ?E ?w w' \<noteq> None))"
      and menu: "\<forall>rows lines. fetched_catalog ?E ?w w' = Some rows \<and> rows \<noteq> [] \<and>
                dish_lines (map context_of rows) = Inr lines \<longrightarrow>
              res_status resp = 200 \<and>
              prompts w' = prompts ?w @ [systemContext @ nl @ nl @ ''Our Current Menu Items:'' @ nl
                                         @ lines @ nl @ nl @ ''Customer Question: '' @ ''Hi'']"
      by (elim exE conjE) (rule that)
    from q have q': "queries w' = [catalog_query]"
      by (simp add: inc start)
    then have f: "fetched_catalog ?E ?w w' = Some (dishes demo_db)"
      by (simp add: fetched_catalog_run start demo_catalog)
    have "dishes demo_db \<noteq> []"
      by (simp add: demo_db_def)
    with menu f demo_lines have ok: "res_status resp = 200"
      and p: "prompts w' = prompts ?w @ [systemContext @ nl @ nl @ ''Our Current Menu Items:'' @ nl
                 @ (''- Seared Salmon: A dish (mains)'' @ nl @ ''- Tiramisu: A dish (mains)'' @ nl)
                 @ nl @ nl @ ''Customer Question: '' @ ''Hi'']"
      by blast+
    from flag ok obtain d where "field (res_json resp) ''data'' = JObj d"
      and "field d ''contextIncluded'' = JBool True"
      by (auto simp: inc f)
    with run q' f ok p show ?thesis
      by (simp add: start)
  qed
  have second: "\<exists>resp w' d. chat ?E [(''message'', JStr ''Hi''), (''includeContext'', JNull)] ?w
                   = (Inr resp, w') \<and>
      queries w' = [] \<and>
      fetched_catalog ?E ?w w' = None \<and>
      res_status resp = 200 \<and> field (res_json resp) ''data'' = JObj d \<and>
      field d ''contextIncluded'' = JBool False \<and>
      prompts w' = [systemContext @ nl @ nl @ ''Customer Question: Hi'']"
  proof -
    let ?body = "[(''message'', JStr ''Hi''), (''includeContext'', JNull)]"
    have m: "field ?body ''message'' = JStr ''Hi''"
      by (simp add: field_Cons)
    have inc: "field_default ?body ''includeContext'' (JBool True) = JNull"
      by (simp add: field_default_def field_Cons field_Nil)
    from context_included_flag [OF m t demo_available g]
    obtain resp w' where run: "chat ?E ?body ?w = (Inr resp, w')"
      and q: "queries w' = (if truthy (field_default ?body ''includeContext'' (JBool True))
                            then queries ?w @ [catalog_query] else queries ?w)"
      and null: "fetched_catalog ?E ?w w' = None \<longrightarrow>
              res_status resp = 200 \<and> field (res_json resp) ''success'' = JBool True \<and>
              (\<exists>d. field (res_json resp) ''data'' = JObj d \<and>
                 field d ''contextIncluded'' = JBool False) \<and>
              prompts w' = prompts ?w @ [systemContext @ nl @ nl @ ''Customer Question: '' @ ''Hi'']"
      by (elim exE conjE) (rule that)
    from q have q': "queries w' = []"
      by (simp add: inc start)
    then have f: "fetched_catalog ?E ?w w' = None"
      by (simp add: fetched_catalog_run start)
    with null run q' show ?thesis
      by (auto simp: start)
  qed
  from first second show ?thesis
    by (rule conjI)
qed

end
